theory Spec2Isabelle
  imports Main "HOL-Library.Word"
begin

section \<open>The vehicle damage detector: one script, run once per interaction\<close>

text \<open>
  \<^verbatim>\<open>app.py\<close> is a Streamlit script. The framework executes the whole file from top
  to bottom for every interaction of the user (first visit, upload, button click); there is
  no state in the program between two executions besides the filesystem. The model below
  therefore consists of

  \<^item> the few functions of Python's \<^verbatim>\<open>os.path\<close> that the script calls, written after the
    standard library (POSIX flavour: separator \<^verbatim>\<open>/\<close>, no alternative separator);
  \<^item> a world: the filesystem and the chronological trace of everything the script did
    to it, to the model library and to the page;
  \<^item> the script itself, statement by statement, as a function from world to world that
    may end with an exception.

  The page decoration (page configuration, style sheet, side bar, title, column layout,
  spinner) is the same in every run, takes no input and decides nothing; it is left out.
  Strings are byte strings; \<^verbatim>\<open>/\<close> and \<^verbatim>\<open>.\<close> are single bytes that never occur inside a
  multi-byte character, so splitting a name at them agrees with Python's splitting at code
  points.
\<close>

subsection \<open>Strings and paths\<close>

type_synonym path = string
type_synonym byte = "8 word"

text \<open>\<^verbatim>\<open>p.rfind(c)\<close>: the highest index at which \<open>c\<close> occurs, \<open>-1\<close> when it does not.\<close>

definition rfind :: "string \<Rightarrow> char \<Rightarrow> int" where
  "rfind p c =
     (if c \<in> set p
      then int (length p) - 1 - int (length (takeWhile (\<lambda>x. x \<noteq> c) (rev p)))
      else - 1)"

text \<open>
  The loop of \<^verbatim>\<open>genericpath._splitext\<close> that skips the leading dots of the file name:
  \<^verbatim>\<open>
    while filenameIndex < dotIndex:
        if p[filenameIndex:filenameIndex+1] != extsep:
            return p[:dotIndex], p[dotIndex:]
        filenameIndex += 1
  \<close>
  The function says whether the loop leaves through its \<^verbatim>\<open>return\<close>.
\<close>

function skip_leading_dots :: "string \<Rightarrow> nat \<Rightarrow> nat \<Rightarrow> bool" where
  "skip_leading_dots p filenameIndex dotIndex =
     (if filenameIndex < dotIndex
      then (if p ! filenameIndex \<noteq> CHR ''.'' then True
            else skip_leading_dots p (filenameIndex + 1) dotIndex)
      else False)"
  by pat_completeness auto
termination
  by (relation "measure (\<lambda>(p, filenameIndex, dotIndex). dotIndex - filenameIndex)") auto

declare skip_leading_dots.simps [simp del]

text \<open>
  \<^verbatim>\<open>os.path.splitext(p)\<close>:
  \<^verbatim>\<open>
    sepIndex = p.rfind(sep)
    dotIndex = p.rfind(extsep)
    if dotIndex > sepIndex:
        filenameIndex = sepIndex + 1
        <the loop above>
    return p, p[:0]
  \<close>
\<close>

definition splitext :: "string \<Rightarrow> string \<times> string" where
  "splitext p =
     (let sepIndex = rfind p (CHR ''/'');
          dotIndex = rfind p (CHR ''.'')
      in if dotIndex > sepIndex \<and> skip_leading_dots p (nat (sepIndex + 1)) (nat dotIndex)
         then (take (nat dotIndex) p, drop (nat dotIndex) p)
         else (p, []))"

text \<open>
  \<^verbatim>\<open>os.path.join(a, b)\<close> for two components:
  \<^verbatim>\<open>
    if b.startswith(sep): path = b
    elif not path or path.endswith(sep): path += b
    else: path += sep + b
  \<close>
\<close>

definition join :: "path \<Rightarrow> path \<Rightarrow> path" where
  "join a b =
     (if b \<noteq> [] \<and> hd b = CHR ''/'' then b
      else if a = [] \<or> last a = CHR ''/'' then a @ b
      else a @ CHR ''/'' # b)"

text \<open>
  \<^verbatim>\<open>os.path.dirname(p)\<close>: everything up to the last separator, with the trailing separators
  removed unless nothing else is left.
  \<^verbatim>\<open>
    i = p.rfind(sep) + 1
    head = p[:i]
    if head and head != sep*len(head):
        head = head.rstrip(sep)
    return head
  \<close>
\<close>

definition rstrip :: "string \<Rightarrow> char \<Rightarrow> string" where
  "rstrip s c = rev (dropWhile (\<lambda>x. x = c) (rev s))"

definition dirname :: "path \<Rightarrow> path" where
  "dirname p =
     (let i = rfind p (CHR ''/'') + 1;
          head = take (nat i) p
      in if head \<noteq> [] \<and> head \<noteq> replicate (length head) (CHR ''/'')
         then rstrip head (CHR ''/'') else head)"

text \<open>\<^verbatim>\<open>str(n)\<close> for a natural number, as an f-string formats \<^verbatim>\<open>len(boxes)\<close>.\<close>

fun str_nat :: "nat \<Rightarrow> string" where
  "str_nat n =
     (if n < 10 then [''0123456789'' ! n]
      else str_nat (n div 10) @ [''0123456789'' ! (n mod 10)])"

declare str_nat.simps [simp del]

text \<open>\<^verbatim>\<open>s.lower()\<close> on the letters of ASCII.\<close>

definition lower_char :: "char \<Rightarrow> char" where
  "lower_char c =
     (case map_of (zip ''ABCDEFGHIJKLMNOPQRSTUVWXYZ'' ''abcdefghijklmnopqrstuvwxyz'') c of
        Some d \<Rightarrow> d
      | None \<Rightarrow> c)"

definition lower :: "string \<Rightarrow> string" where
  "lower s = map lower_char s"

text \<open>
  \<^verbatim>\<open>str(uuid.uuid4())\<close> is a random string of the shape
  \<^verbatim>\<open>xxxxxxxx-xxxx-4xxx-yxxx-xxxxxxxxxxxx\<close>, where \<open>x\<close> is a lower-case hexadecimal digit and
  \<open>y\<close> is one of \<^verbatim>\<open>8 9 a b\<close> (RFC 4122, version 4). The script receives it from the
  library; the model receives it as an input of the run.
\<close>

definition uuid_char :: "char \<Rightarrow> char \<Rightarrow> bool" where
  "uuid_char t c =
     (if t = CHR ''x'' then c \<in> set ''0123456789abcdef''
      else if t = CHR ''y'' then c \<in> set ''89ab''
      else c = t)"

definition is_uuid4_str :: "string \<Rightarrow> bool" where
  "is_uuid4_str s = list_all2 uuid_char ''xxxxxxxx-xxxx-4xxx-yxxx-xxxxxxxxxxxx'' s"

subsection \<open>Constants of the script\<close>

definition UPLOAD_FOLDER :: path where
  "UPLOAD_FOLDER = ''uploads''"

definition RESULT_FOLDER :: path where
  "RESULT_FOLDER = ''results''"

subsection \<open>Exceptions, images, files and the trace\<close>

text \<open>
  What Python raises, with its class name and the text \<^verbatim>\<open>str(e)\<close>. An instance of
  \<^verbatim>\<open>Exception\<close> is a \<open>PyException\<close>. A \<open>PyBaseException\<close> is an instance of
  \<^verbatim>\<open>BaseException\<close> that is not one of \<^verbatim>\<open>Exception\<close>: \<^verbatim>\<open>KeyboardInterrupt\<close>,
  \<^verbatim>\<open>SystemExit\<close>, \<^verbatim>\<open>GeneratorExit\<close>, and the signals with which the framework stops or
  reruns a script from inside one of its calls. \<^verbatim>\<open>except Exception\<close> catches the first
  kind only.
\<close>

datatype py_exception =
    PyException (exc_class: string) (exc_str: string)
  | PyBaseException (exc_class: string) (exc_str: string)

definition is_Exception :: "py_exception \<Rightarrow> bool" where
  "is_Exception e = (case e of PyException c s \<Rightarrow> True | PyBaseException c s \<Rightarrow> False)"

text \<open>
  The array that \<^verbatim>\<open>plot()\<close> returns: height, then width, then colour channel, each entry an
  unsigned byte. \<^verbatim>\<open>a[..., ::-1]\<close> reverses the last axis.
\<close>

type_synonym ndarray = "byte list list list"

definition reverse_last_axis :: "ndarray \<Rightarrow> ndarray" where
  "reverse_last_axis a = map (map rev) a"

text \<open>\<^verbatim>\<open>Image.fromarray(a)\<close>: the picture whose pixels are the entries of \<open>a\<close>.\<close>

datatype image = Image (pixels: ndarray)

text \<open>
  A file holds the raw bytes that were written to it, or the encoding that \<^verbatim>\<open>Image.save\<close>
  made of a picture. \<^verbatim>\<open>Image.save\<close> takes the format from the extension of the file name in
  lower case, so an encoded file is given by that extension and the picture handed over.
\<close>

datatype content = Raw "byte list" | Encoded string image

datatype node = Dir | File content

datatype event =
    Mkdir path
  | Write path content
  | Call_YOLO path
  | Call_predict path
  | Call_plot
  | Call_fromarray
  | Call_save path
  | St_image path string
  | St_subheader string
  | St_error string
  | St_success string
  | St_info string

record world =
  fs :: "path \<rightharpoonup> node"
  trace :: "event list"

text \<open>
  A statement takes the world and returns the new world together with its value or the
  exception it raised.
\<close>

type_synonym 'a io = "world \<Rightarrow> (py_exception + 'a) \<times> world"

definition io_return :: "'a \<Rightarrow> 'a io" where
  "io_return x w = (Inr x, w)"

definition raise :: "py_exception \<Rightarrow> 'a io" where
  "raise e w = (Inl e, w)"

definition io_bind :: "'a io \<Rightarrow> ('a \<Rightarrow> 'b io) \<Rightarrow> 'b io" where
  "io_bind m f w = (case m w of (Inl e, w') \<Rightarrow> (Inl e, w') | (Inr x, w') \<Rightarrow> f x w')"

definition emit :: "event \<Rightarrow> unit io" where
  "emit ev w = (Inr (), w\<lparr>trace := trace w @ [ev]\<rparr>)"

definition quote :: "string \<Rightarrow> string" where
  "quote s = CHR 0x27 # s @ [CHR 0x27]"

subsection \<open>The filesystem calls\<close>

text \<open>\<^verbatim>\<open>os.path.exists(p)\<close>: true of a file and of a directory.\<close>

definition exists :: "world \<Rightarrow> path \<Rightarrow> bool" where
  "exists w p = (fs w p \<noteq> None)"

text \<open>
  \<^verbatim>\<open>os.makedirs(name, exist_ok=True)\<close> for a name of one component: \<^verbatim>\<open>mkdir\<close> creates the
  directory; when something is there already, the error is swallowed if that is a
  directory and raised again if it is not.
\<close>

definition makedirs :: "path \<Rightarrow> unit io" where
  "makedirs name w =
     (case fs w name of
        None \<Rightarrow> (Inr (), w\<lparr>fs := (fs w)(name \<mapsto> Dir), trace := trace w @ [Mkdir name]\<rparr>)
      | Some Dir \<Rightarrow> (Inr (), w)
      | Some (File c) \<Rightarrow>
          (Inl (PyException ''FileExistsError'' (''[Errno 17] File exists: '' @ quote name)), w))"

text \<open>
  What opening \<open>p\<close> for writing raises: the directory of \<open>p\<close> must be there, and \<open>p\<close> must
  not be a directory itself. An empty directory name is the current directory.
\<close>

definition open_error :: "world \<Rightarrow> path \<Rightarrow> py_exception option" where
  "open_error w p =
     (let d = dirname p in
      if d \<noteq> [] \<and> fs w d = None
      then Some (PyException ''FileNotFoundError''
                  (''[Errno 2] No such file or directory: '' @ quote p))
      else if d \<noteq> [] \<and> fs w d \<noteq> Some Dir
      then Some (PyException ''NotADirectoryError''
                  (''[Errno 20] Not a directory: '' @ quote p))
      else if fs w p = Some Dir
      then Some (PyException ''IsADirectoryError''
                  (''[Errno 21] Is a directory: '' @ quote p))
      else None)"

definition store :: "path \<Rightarrow> content \<Rightarrow> unit io" where
  "store p c w = (Inr (), w\<lparr>fs := (fs w)(p \<mapsto> File c), trace := trace w @ [Write p c]\<rparr>)"

text \<open>
  \<^verbatim>\<open>
    with open(p, "wb") as f:
        f.write(data)
  \<close>
  creates the file or replaces what it held.
\<close>

definition write_file :: "path \<Rightarrow> byte list \<Rightarrow> unit io" where
  "write_file p data w =
     (case open_error w p of
        Some e \<Rightarrow> raise e w
      | None \<Rightarrow> store p (Raw data) w)"

subsection \<open>The libraries the script calls\<close>

text \<open>
  The detection library and the imaging library are not part of the program. What they
  answer in a run is an input of that run:
  \<^item> \<^verbatim>\<open>YOLO(path)\<close> raises or returns a model, and a model is its \<^verbatim>\<open>predict\<close> method, which
    raises or returns a list of results;
  \<^item> a result answers \<^verbatim>\<open>plot()\<close> with an exception or an array, and its \<^verbatim>\<open>boxes\<close> are a
    list of detections or \<^verbatim>\<open>None\<close> (a model without a detection head);
  \<^item> \<^verbatim>\<open>Image.fromarray\<close>, \<^verbatim>\<open>Image.save\<close> and \<^verbatim>\<open>st.image\<close> may raise for reasons of their own.

  \<^item> the imaging library has a codec for every format: \<open>codec ext img\<close> is the picture
    that a file written from \<open>img\<close> under the extension \<open>ext\<close> gives when it is read
    back. PNG stores the bytes of the picture without loss; JPEG does not.

  The libraries are taken to leave the two folders of the script alone. When
  \<^verbatim>\<open>Image.save\<close> raises, no file is left at a path that was free before the call.
  The text widgets (\<^verbatim>\<open>st.error\<close>, \<^verbatim>\<open>st.success\<close>, \<^verbatim>\<open>st.info\<close>, \<^verbatim>\<open>st.subheader\<close>) are
  taken not to raise.
\<close>

datatype box = Box (cls: nat)

record yolo_result =
  plot :: "py_exception + ndarray"
  boxes :: "box list option"

datatype model = Model (predict: "path \<Rightarrow> py_exception + yolo_result list")

record env =
  app_dir :: path
  YOLO :: "path \<Rightarrow> py_exception + model"
  fromarray_error :: "ndarray \<Rightarrow> py_exception option"
  save_error :: "image \<Rightarrow> path \<Rightarrow> py_exception option"
  st_image_error :: "path \<Rightarrow> py_exception option"
  codec :: "string \<Rightarrow> image \<Rightarrow> image"

definition lift :: "py_exception + 'a \<Rightarrow> 'a io" where
  "lift r = (case r of Inl e \<Rightarrow> raise e | Inr x \<Rightarrow> io_return x)"

definition call_YOLO :: "env \<Rightarrow> path \<Rightarrow> model io" where
  "call_YOLO env p = io_bind (emit (Call_YOLO p)) (\<lambda>_. lift (YOLO env p))"

definition call_predict :: "model \<Rightarrow> path \<Rightarrow> yolo_result list io" where
  "call_predict m p = io_bind (emit (Call_predict p)) (\<lambda>_. lift (predict m p))"

definition call_plot :: "yolo_result \<Rightarrow> ndarray io" where
  "call_plot r = io_bind (emit Call_plot) (\<lambda>_. lift (plot r))"

definition fromarray :: "env \<Rightarrow> ndarray \<Rightarrow> image io" where
  "fromarray env a =
     io_bind (emit Call_fromarray) (\<lambda>_.
       case fromarray_error env a of Some e \<Rightarrow> raise e | None \<Rightarrow> io_return (Image a))"

text \<open>
  \<^verbatim>\<open>img.save(p)\<close>: \<^verbatim>\<open>ext = os.path.splitext(filename)[1].lower()\<close> selects the format, the
  file is opened for writing and the encoder writes it. What reading the file back gives
  is the picture itself for \<^verbatim>\<open>.png\<close> and the codec's rendering of it otherwise.
\<close>

definition save_format :: "path \<Rightarrow> string" where
  "save_format p = lower (snd (splitext p))"

definition save :: "env \<Rightarrow> image \<Rightarrow> path \<Rightarrow> unit io" where
  "save env img p =
     io_bind (emit (Call_save p)) (\<lambda>_.
       case save_error env img p of
         Some e \<Rightarrow> raise e
       | None \<Rightarrow> (\<lambda>w. case open_error w p of
                        Some e \<Rightarrow> raise e w
                      | None \<Rightarrow> store p (Encoded (save_format p) img) w))"

definition stored_picture :: "env \<Rightarrow> content \<Rightarrow> image option" where
  "stored_picture env c =
     (case c of
        Raw bytes \<Rightarrow> None
      | Encoded ext img \<Rightarrow> Some (if ext = ''.png'' then img else codec env ext img))"

definition st_image :: "env \<Rightarrow> path \<Rightarrow> string \<Rightarrow> unit io" where
  "st_image env p caption =
     (case st_image_error env p of
        Some e \<Rightarrow> raise e
      | None \<Rightarrow> emit (St_image p caption))"

text \<open>\<^verbatim>\<open>results[0]\<close> and \<^verbatim>\<open>len(boxes)\<close>, with the exceptions Python raises.\<close>

definition getitem0 :: "'a list \<Rightarrow> 'a io" where
  "getitem0 xs =
     (case xs of
        [] \<Rightarrow> raise (PyException ''IndexError'' ''list index out of range'')
      | x # _ \<Rightarrow> io_return x)"

definition len :: "box list option \<Rightarrow> nat io" where
  "len bs =
     (case bs of
        None \<Rightarrow> raise (PyException ''TypeError'' ''object of type 'NoneType' has no len()'')
      | Some xs \<Rightarrow> io_return (length xs))"

subsection \<open>The script\<close>

text \<open>
  \<^verbatim>\<open>MODEL_PATH = os.path.join(os.path.dirname(os.path.abspath(__file__)), "damage-detector.pt")\<close>;
  the directory of the script is \<open>app_dir\<close>.
\<close>

definition MODEL_PATH :: "env \<Rightarrow> path" where
  "MODEL_PATH env = join (app_dir env) ''damage-detector.pt''"

text \<open>The two \<^verbatim>\<open>os.makedirs\<close> calls at the top of the file.\<close>

definition startup :: "unit io" where
  "startup = io_bind (makedirs UPLOAD_FOLDER) (\<lambda>_. makedirs RESULT_FOLDER)"

text \<open>
  \<^verbatim>\<open>
    file_ext = os.path.splitext(uploaded_file.name)[-1]
    unique_filename = f"{uuid.uuid4()}{file_ext}"
    input_path = os.path.join(UPLOAD_FOLDER, unique_filename)
    ...
    result_filename = f"result_{unique_filename}"
    result_path = os.path.join(RESULT_FOLDER, result_filename)
  \<close>
\<close>

definition file_ext :: "string \<Rightarrow> string" where
  "file_ext name = snd (splitext name)"

definition unique_filename :: "string \<Rightarrow> string \<Rightarrow> string" where
  "unique_filename uuid name = uuid @ file_ext name"

definition input_path :: "string \<Rightarrow> path" where
  "input_path unique = join UPLOAD_FOLDER unique"

definition result_filename :: "string \<Rightarrow> string" where
  "result_filename unique = ''result_'' @ unique"

definition result_path :: "string \<Rightarrow> path" where
  "result_path unique = join RESULT_FOLDER (result_filename unique)"

text \<open>
  The body of the \<^verbatim>\<open>try\<close> statement, in the three parts its comments name: load the
  model and run the prediction; plot and save the result image; show the result.
\<close>

definition run_prediction :: "env \<Rightarrow> string \<Rightarrow> yolo_result list io" where
  "run_prediction env unique =
     io_bind (call_YOLO env (MODEL_PATH env)) (\<lambda>model.
       call_predict model (input_path unique))"

definition save_result :: "env \<Rightarrow> string \<Rightarrow> yolo_result list \<Rightarrow> unit io" where
  "save_result env unique results =
     io_bind (getitem0 results) (\<lambda>r.
     io_bind (call_plot r) (\<lambda>res_plotted.
     io_bind (fromarray env (reverse_last_axis res_plotted)) (\<lambda>res_image.
       save env res_image (result_path unique))))"

definition show_result :: "env \<Rightarrow> string \<Rightarrow> yolo_result list \<Rightarrow> unit io" where
  "show_result env unique results =
     io_bind (emit (St_subheader ''2. Detection Results'')) (\<lambda>_.
     io_bind (st_image env (result_path unique) ''Detected Damages'') (\<lambda>_.
     io_bind (getitem0 results) (\<lambda>r.
     io_bind (len (boxes r)) (\<lambda>n.
       if n > 0
       then io_bind (len (boxes r)) (\<lambda>n'.
              emit (St_success (''Detected '' @ str_nat n' @ '' issue(s)!'')))
       else emit (St_info ''No visible damage detected.'')))))"

definition try_block :: "env \<Rightarrow> string \<Rightarrow> unit io" where
  "try_block env unique =
     io_bind (run_prediction env unique) (\<lambda>results.
     io_bind (save_result env unique results) (\<lambda>_.
       show_result env unique results))"

text \<open>What the button does: the test for the model file, the \<^verbatim>\<open>try\<close> and its handler.\<close>

definition model_not_found :: "env \<Rightarrow> string" where
  "model_not_found env =
     ''Model file not found at: '' @ MODEL_PATH env @
     ''. Please ensure 'damage-detector.pt' is in the project directory.''"

definition analyze :: "env \<Rightarrow> string \<Rightarrow> unit io" where
  "analyze env unique w =
     (if \<not> exists w (MODEL_PATH env) then emit (St_error (model_not_found env)) w
      else (case try_block env unique w of
              (Inl e, w') \<Rightarrow>
                if is_Exception e
                then emit (St_error (''Error during detection: '' @ exc_str e)) w'
                else (Inl e, w')
            | (Inr u, w') \<Rightarrow> (Inr u, w')))"

text \<open>
  One interaction: the file in the uploader (if any), whether the button was clicked, and
  the identifier that \<^verbatim>\<open>uuid.uuid4()\<close> draws in this run.
\<close>

record uploaded =
  name :: string
  getbuffer :: "byte list"

record interaction =
  uploaded_file :: "uploaded option"
  button :: bool
  uuid4 :: string

definition upload_handler :: "env \<Rightarrow> interaction \<Rightarrow> unit io" where
  "upload_handler env i =
     (case uploaded_file i of
        Some f \<Rightarrow>
          (let unique = unique_filename (uuid4 i) (name f) in
           io_bind (write_file (input_path unique) (getbuffer f)) (\<lambda>_.
           io_bind (st_image env (input_path unique) ''Original Image'') (\<lambda>_.
             if button i then analyze env unique else io_return ())))
      | None \<Rightarrow> emit (St_info ''Results will appear here after upload.''))"

text \<open>
  The whole file. An exception that leaves it ends this run only: the framework shows it on
  the page and goes on serving.
\<close>

definition script :: "env \<Rightarrow> interaction \<Rightarrow> unit io" where
  "script env i = io_bind startup (\<lambda>_. upload_handler env i)"


subsection \<open>Reading the trace\<close>

text \<open>What a statement adds to the trace.\<close>

definition events :: "'a io \<Rightarrow> world \<Rightarrow> event list" where
  "events m w = drop (length (trace w)) (trace (snd (m w)))"

definition is_write_to :: "path \<Rightarrow> event \<Rightarrow> bool" where
  "is_write_to p ev = (case ev of Write q c \<Rightarrow> q = p | _ \<Rightarrow> False)"

definition is_library_call :: "event \<Rightarrow> bool" where
  "is_library_call ev =
     (case ev of
        Call_YOLO p \<Rightarrow> True
      | Call_predict p \<Rightarrow> True
      | Call_plot \<Rightarrow> True
      | Call_fromarray \<Rightarrow> True
      | Call_save p \<Rightarrow> True
      | _ \<Rightarrow> False)"

definition is_result_message :: "event \<Rightarrow> bool" where
  "is_result_message ev =
     (case ev of St_success s \<Rightarrow> True | St_info s \<Rightarrow> True | _ \<Rightarrow> False)"

text \<open>
  The same libraries, except that every prediction is cut down to its first result.
\<close>

definition first_result_only :: "env \<Rightarrow> env" where
  "first_result_only env =
     env\<lparr>YOLO := \<lambda>p. map_sum id (\<lambda>m. Model (\<lambda>q. map_sum id (take 1) (predict m q))) (YOLO env p)\<rparr>"

text \<open>The paths under which a run stores the upload and the result.\<close>

definition written_paths :: "interaction \<Rightarrow> path list" where
  "written_paths i =
     (case uploaded_file i of
        None \<Rightarrow> []
      | Some f \<Rightarrow> [input_path (unique_filename (uuid4 i) (name f)),
                   result_path (unique_filename (uuid4 i) (name f))])"


subsection \<open>Which exception leaves the \<^verbatim>\<open>try\<close> statement\<close>

text \<open>
  Written after the specification rather than after the code: the stages of a detection in
  their order (load the model, predict, take the first result, plot, build the picture,
  save it, show it, count the boxes), and the exception of the first stage that fails.
  \<open>None\<close> means that every stage succeeded.
\<close>

definition raised_in_try :: "env \<Rightarrow> string \<Rightarrow> world \<Rightarrow> py_exception option" where
  "raised_in_try env unique w =
     (case YOLO env (MODEL_PATH env) of
        Inl e \<Rightarrow> Some e
      | Inr m \<Rightarrow>
     (case predict m (input_path unique) of
        Inl e \<Rightarrow> Some e
      | Inr [] \<Rightarrow> Some (PyException ''IndexError'' ''list index out of range'')
      | Inr (r # rest) \<Rightarrow>
     (case plot r of
        Inl e \<Rightarrow> Some e
      | Inr a \<Rightarrow>
     (case fromarray_error env (reverse_last_axis a) of
        Some e \<Rightarrow> Some e
      | None \<Rightarrow>
     (case save_error env (Image (reverse_last_axis a)) (result_path unique) of
        Some e \<Rightarrow> Some e
      | None \<Rightarrow>
     (case open_error w (result_path unique) of
        Some e \<Rightarrow> Some e
      | None \<Rightarrow>
     (case st_image_error env (result_path unique) of
        Some e \<Rightarrow> Some e
      | None \<Rightarrow>
     (case boxes r of
        None \<Rightarrow> Some (PyException ''TypeError'' ''object of type 'NoneType' has no len()'')
      | Some bs \<Rightarrow> None))))))))"

subsection \<open>Sample inputs\<close>

definition sample_uuid :: string where
  "sample_uuid = ''123e4567-e89b-42d3-a456-426614174000''"

definition other_uuid :: string where
  "other_uuid = ''0f8fad5b-d9cb-469f-a165-70867728950e''"

definition sample_result :: yolo_result where
  "sample_result = \<lparr>plot = Inr [[[1, 2, 3], [4, 5, 6]]], boxes = Some [Box 0, Box 2]\<rparr>"

definition clean_result :: yolo_result where
  "clean_result = \<lparr>plot = Inr [[[9, 8, 7]]], boxes = Some []\<rparr>"

definition sample_env :: env where
  "sample_env =
     \<lparr>app_dir = ''/srv/app'',
      YOLO = (\<lambda>p. Inr (Model (\<lambda>q. Inr [sample_result, clean_result]))),
      fromarray_error = (\<lambda>a. None),
      save_error = (\<lambda>img p. None),
      st_image_error = (\<lambda>p. None),
      codec = (\<lambda>ext img. if img = Image [[[3, 2, 1], [6, 5, 4]]]
                         then Image [[[4, 3, 1], [5, 4, 2]]] else img)\<rparr>"

definition broken_env :: env where
  "broken_env =
     sample_env\<lparr>YOLO := \<lambda>p. Inl (PyException ''RuntimeError'' ''bad weights'')\<rparr>"

definition interrupted_env :: env where
  "interrupted_env =
     sample_env\<lparr>YOLO := \<lambda>p. Inr (Model (\<lambda>q. Inl (PyBaseException ''KeyboardInterrupt'' [])))\<rparr>"

definition single_env :: env where
  "single_env = sample_env\<lparr>YOLO := \<lambda>p. Inr (Model (\<lambda>q. Inr [sample_result]))\<rparr>"

definition clean_env :: env where
  "clean_env = sample_env\<lparr>YOLO := \<lambda>p. Inr (Model (\<lambda>q. Inr [clean_result]))\<rparr>"

definition empty_world :: world where
  "empty_world = \<lparr>fs = Map.empty, trace = []\<rparr>"

definition blocked_world :: world where
  "blocked_world = \<lparr>fs = [''uploads'' \<mapsto> File (Raw [])], trace = []\<rparr>"

definition sample_world :: world where
  "sample_world =
     \<lparr>fs = [''/srv/app/damage-detector.pt'' \<mapsto> File (Raw []),
             ''uploads'' \<mapsto> Dir, ''results'' \<mapsto> Dir],
      trace = []\<rparr>"

definition sample_upload :: interaction where
  "sample_upload =
     \<lparr>uploaded_file = Some \<lparr>name = ''car.JPG'', getbuffer = [7, 8]\<rparr>,
      button = True, uuid4 = sample_uuid\<rparr>"



text \<open>Two uploads for which the generator returns the same identifier.\<close>

definition first_of_two :: interaction where
  "first_of_two =
     \<lparr>uploaded_file = Some \<lparr>name = ''a.png'', getbuffer = [1]\<rparr>,
      button = False, uuid4 = sample_uuid\<rparr>"

definition second_of_two :: interaction where
  "second_of_two =
     \<lparr>uploaded_file = Some \<lparr>name = ''b.png'', getbuffer = [2]\<rparr>,
      button = False, uuid4 = sample_uuid\<rparr>"

section \<open>Properties\<close>

subsection \<open>Paths and names\<close>

lemma rfind_notin: "c \<notin> set p \<Longrightarrow> rfind p c = - 1"
  by (simp add: rfind_def)

lemma rfind_last: "c \<notin> set suf \<Longrightarrow> rfind (pre @ c # suf) c = int (length pre)"
proof -
  assume a: "c \<notin> set suf"
  have "takeWhile (\<lambda>x. x \<noteq> c) (rev suf @ c # rev pre) = rev suf"
    using a by (subst takeWhile_append2) auto
  then show ?thesis by (simp add: rfind_def)
qed

lemma rfind_split:
  assumes "c \<in> set p"
  obtains pre suf where "p = pre @ c # suf" and "c \<notin> set suf" and "rfind p c = int (length pre)"
proof -
  from split_list_last [OF assms] obtain pre suf where ps: "p = pre @ c # suf" "c \<notin> set suf"
    by blast
  then have "rfind p c = int (length pre)" by (simp add: rfind_last)
  with ps show thesis using that by blast
qed

lemma rfind_range: "- 1 \<le> rfind p c \<and> rfind p c < int (length p)"
proof (cases "c \<in> set p")
  case True
  then show ?thesis by (rule rfind_split) simp
next
  case False
  then show ?thesis by (simp add: rfind_notin)
qed

lemma rfind_append_notin: "c \<notin> set ys \<Longrightarrow> rfind (xs @ ys) c = rfind xs c"
proof (cases "c \<in> set xs")
  case True
  assume n: "c \<notin> set ys"
  from True obtain pre suf where ps: "xs = pre @ c # suf" "c \<notin> set suf" "rfind xs c = int (length pre)"
    by (rule rfind_split)
  have "rfind (pre @ c # (suf @ ys)) c = int (length pre)"
    using ps(2) n by (intro rfind_last) simp
  with ps show ?thesis by simp
next
  case False
  assume "c \<notin> set ys"
  with False show ?thesis by (simp add: rfind_notin)
qed

lemma skip_leading_dots_iff:
  "skip_leading_dots p i d \<longleftrightarrow> (\<exists>k. i \<le> k \<and> k < d \<and> p ! k \<noteq> CHR ''.'')"
proof (induction p i d rule: skip_leading_dots.induct)
  case (1 p i d)
  show ?case
  proof (cases "i < d")
    case False
    then show ?thesis by (subst skip_leading_dots.simps) auto
  next
    case True
    show ?thesis
    proof (cases "p ! i \<noteq> CHR ''.''")
      case T2: True
      with True show ?thesis by (subst skip_leading_dots.simps) auto
    next
      case F2: False
      with True have "skip_leading_dots p i d = skip_leading_dots p (i + 1) d"
        by (subst skip_leading_dots.simps) simp
      also have "\<dots> \<longleftrightarrow> (\<exists>k. i + 1 \<le> k \<and> k < d \<and> p ! k \<noteq> CHR ''.'')"
        using "1.IH" True F2 by simp
      also have "\<dots> \<longleftrightarrow> (\<exists>k. i \<le> k \<and> k < d \<and> p ! k \<noteq> CHR ''.'')"
      proof
        assume "\<exists>k. i + 1 \<le> k \<and> k < d \<and> p ! k \<noteq> CHR ''.''"
        then obtain k where "i + 1 \<le> k" "k < d" "p ! k \<noteq> CHR ''.''" by blast
        then show "\<exists>k. i \<le> k \<and> k < d \<and> p ! k \<noteq> CHR ''.''" by (intro exI [of _ k]) simp
      next
        assume "\<exists>k. i \<le> k \<and> k < d \<and> p ! k \<noteq> CHR ''.''"
        then obtain k where k: "i \<le> k" "k < d" "p ! k \<noteq> CHR ''.''" by blast
        with F2 have "k \<noteq> i" by auto
        with k show "\<exists>k. i + 1 \<le> k \<and> k < d \<and> p ! k \<noteq> CHR ''.''" by (intro exI [of _ k]) simp
      qed
      finally show ?thesis .
    qed
  qed
qed

lemma splitext_append: "fst (splitext p) @ snd (splitext p) = p"
  by (simp add: splitext_def Let_def)

lemma splitext_no_dot: "CHR ''.'' \<notin> set p \<Longrightarrow> splitext p = (p, [])"
  using rfind_range [of p "CHR ''/''"] by (simp add: splitext_def Let_def rfind_notin)

lemma splitext_shape:
  "snd (splitext p) = [] \<or>
   (\<exists>suf. snd (splitext p) = CHR ''.'' # suf \<and> CHR ''.'' \<notin> set suf \<and> CHR ''/'' \<notin> set suf)"
proof (cases "rfind p (CHR ''.'') > rfind p (CHR ''/'') \<and>
    skip_leading_dots p (nat (rfind p (CHR ''/'') + 1)) (nat (rfind p (CHR ''.'')))")
  case False
  then show ?thesis by (auto simp add: splitext_def Let_def)
next
  case True
  then have ext: "snd (splitext p) = drop (nat (rfind p (CHR ''.''))) p"
    by (simp add: splitext_def Let_def)
  from True rfind_range [of p "CHR ''/''"] have "rfind p (CHR ''.'') \<noteq> - 1" by linarith
  then have "CHR ''.'' \<in> set p" using rfind_notin by blast
  then obtain pre suf where ps: "p = pre @ CHR ''.'' # suf" "CHR ''.'' \<notin> set suf"
      "rfind p (CHR ''.'') = int (length pre)"
    by (rule rfind_split)
  have "CHR ''/'' \<notin> set suf"
  proof
    assume "CHR ''/'' \<in> set suf"
    then obtain s1 s2 where s: "suf = s1 @ CHR ''/'' # s2" "CHR ''/'' \<notin> set s2"
      using split_list_last by fastforce
    have "rfind ((pre @ CHR ''.'' # s1) @ CHR ''/'' # s2) (CHR ''/'') = int (length (pre @ CHR ''.'' # s1))"
      using s(2) by (rule rfind_last)
    with ps s True show False by simp
  qed
  with ps ext show ?thesis by simp
qed

lemma drop_after_rfind:
  "drop (nat (rfind s c + 1)) s = rev (takeWhile (\<lambda>x. x \<noteq> c) (rev s))"
proof (cases "c \<in> set s")
  case False
  then have tw: "takeWhile (\<lambda>x. x \<noteq> c) (rev s) = rev s"
    by (intro takeWhile_eq_all_conv [THEN iffD2]) auto
  from False show ?thesis by (simp add: rfind_notin tw)
next
  case True
  then obtain pre suf where ps: "s = pre @ c # suf" "c \<notin> set suf" "rfind s c = int (length pre)"
    by (rule rfind_split)
  have "takeWhile (\<lambda>x. x \<noteq> c) (rev suf @ c # rev pre) = rev suf"
    using ps(2) by (subst takeWhile_append2) auto
  with ps show ?thesis by (simp add: nat_add_distrib)
qed

lemma splitext_ext:
  assumes "CHR ''.'' \<notin> set suf" and "CHR ''/'' \<notin> set suf"
    and "\<exists>c \<in> set (takeWhile (\<lambda>c. c \<noteq> CHR ''/'') (rev stem)). c \<noteq> CHR ''.''"
  shows "splitext (stem @ CHR ''.'' # suf) = (stem, CHR ''.'' # suf)"
proof -
  let ?p = "stem @ CHR ''.'' # suf"
  have dot: "rfind ?p (CHR ''.'') = int (length stem)"
    using assms(1) by (rule rfind_last)
  have sep: "rfind ?p (CHR ''/'') = rfind stem (CHR ''/'')"
    using assms(2) by (intro rfind_append_notin) simp
  have lt: "rfind stem (CHR ''/'') < int (length stem)"
    using rfind_range by blast
  from assms(3) obtain c where c: "c \<in> set (drop (nat (rfind stem (CHR ''/'') + 1)) stem)" "c \<noteq> CHR ''.''"
    by (auto simp add: drop_after_rfind)
  then obtain j where j: "j < length (drop (nat (rfind stem (CHR ''/'') + 1)) stem)"
      "drop (nat (rfind stem (CHR ''/'') + 1)) stem ! j = c"
    by (auto simp add: in_set_conv_nth)
  let ?k = "nat (rfind stem (CHR ''/'') + 1) + j"
  from j have k: "?k < length stem" "stem ! ?k = c" by auto
  then have "?p ! ?k = c" by (simp add: nth_append)
  with k c have "skip_leading_dots ?p (nat (rfind stem (CHR ''/'') + 1)) (length stem)"
    unfolding skip_leading_dots_iff by (intro exI [of _ ?k]) simp
  with dot sep lt show ?thesis by (simp add: splitext_def Let_def)
qed

lemma uuid_char_not_slash: "uuid_char t c \<Longrightarrow> t \<noteq> CHR ''/'' \<Longrightarrow> c \<noteq> CHR ''/''"
  by (auto simp add: uuid_char_def split: if_splits)

lemma is_uuid4_str_length: "is_uuid4_str u \<Longrightarrow> length u = 36"
  by (auto simp add: is_uuid4_str_def dest: list_all2_lengthD)

lemma is_uuid4_str_no_slash:
  assumes "is_uuid4_str u"
  shows "CHR ''/'' \<notin> set u"
proof
  assume "CHR ''/'' \<in> set u"
  then obtain k where k: "k < length u" "u ! k = CHR ''/''"
    by (auto simp add: in_set_conv_nth)
  define t where "t = ''xxxxxxxx-xxxx-4xxx-yxxx-xxxxxxxxxxxx''"
  from assms have la: "list_all2 uuid_char t u" by (simp add: is_uuid4_str_def t_def)
  then have len: "length t = length u" by (rule list_all2_lengthD)
  from la k(1) len have uc: "uuid_char (t ! k) (u ! k)" by (simp add: list_all2_nthD)
  have "CHR ''/'' \<notin> set t" by (simp add: t_def)
  moreover from k len have "t ! k \<in> set t" by simp
  ultimately have "t ! k \<noteq> CHR ''/''" by metis
  with uc k show False using uuid_char_not_slash by metis
qed

lemma is_uuid4_str_hd: "is_uuid4_str u \<Longrightarrow> u \<noteq> [] \<and> hd u \<noteq> CHR ''/''"
  using is_uuid4_str_no_slash [of u] is_uuid4_str_length [of u]
  by (cases u) auto

lemma file_ext_no_slash: "CHR ''/'' \<notin> set (file_ext n)"
  using splitext_shape [of n] by (auto simp add: file_ext_def)

lemma unique_filename_no_slash: "is_uuid4_str u \<Longrightarrow> CHR ''/'' \<notin> set (unique_filename u n)"
  by (simp add: unique_filename_def is_uuid4_str_no_slash file_ext_no_slash)

lemma input_path_eq:
  "is_uuid4_str u \<Longrightarrow> input_path (unique_filename u n) = ''uploads/'' @ unique_filename u n"
  using is_uuid4_str_hd [of u]
  by (simp add: input_path_def join_def UPLOAD_FOLDER_def unique_filename_def)

lemma result_path_eq: "result_path x = ''results/result_'' @ x"
  by (simp add: result_path_def result_filename_def join_def RESULT_FOLDER_def)

lemma input_ne_result:
  "is_uuid4_str u \<Longrightarrow> input_path (unique_filename u n) \<noteq> result_path x"
  by (simp add: input_path_eq result_path_eq)

lemma dirname_uploads: "CHR ''/'' \<notin> set x \<Longrightarrow> dirname (''uploads/'' @ x) = ''uploads''"
proof -
  assume "CHR ''/'' \<notin> set x"
  then have "rfind (''uploads'' @ CHR ''/'' # x) (CHR ''/'') = int (length ''uploads'')"
    by (rule rfind_last)
  then show ?thesis by (simp add: dirname_def Let_def rstrip_def)
qed

lemma dirname_results: "CHR ''/'' \<notin> set x \<Longrightarrow> dirname (''results/result_'' @ x) = ''results''"
proof -
  assume "CHR ''/'' \<notin> set x"
  then have "CHR ''/'' \<notin> set (''result_'' @ x)" by simp
  then have "rfind (''results'' @ CHR ''/'' # (''result_'' @ x)) (CHR ''/'') = int (length ''results'')"
    by (rule rfind_last)
  then show ?thesis by (simp add: dirname_def Let_def rstrip_def)
qed


text \<open>
  Claim C10. The unique name is the identifier followed by the second component of
  \<^verbatim>\<open>splitext\<close> of the original name. That component is a piece cut from the end of the
  original name, unchanged: it is empty, or a dot followed by characters that are neither
  dots nor separators. A name without a dot gives the bare identifier. A name that ends in
  a dot and a suffix \<open>suf\<close> without dot or separator, and whose last path component has
  a character other than a dot before that, gives the identifier followed by the dot and
  \<open>suf\<close>, in the letter case of the original.
\<close>

theorem extension_taken_verbatim:
  "unique_filename u n = u @ snd (splitext n) \<and>
   fst (splitext n) @ file_ext n = n \<and>
   (file_ext n = [] \<or>
    (\<exists>suf. file_ext n = CHR ''.'' # suf \<and> CHR ''.'' \<notin> set suf \<and> CHR ''/'' \<notin> set suf)) \<and>
   (CHR ''.'' \<notin> set n \<longrightarrow> unique_filename u n = u) \<and>
   (CHR ''.'' \<notin> set suf \<and> CHR ''/'' \<notin> set suf \<and>
    (\<exists>c \<in> set (takeWhile (\<lambda>c. c \<noteq> CHR ''/'') (rev stem)). c \<noteq> CHR ''.'') \<longrightarrow>
      unique_filename u (stem @ CHR ''.'' # suf) = u @ CHR ''.'' # suf)"
  using splitext_shape [of n]
  by (auto simp add: unique_filename_def file_ext_def splitext_append splitext_no_dot splitext_ext
      simp del: takeWhile_eq_all_conv)

theorem extension_taken_verbatim_witness:
  "CHR ''.'' \<notin> set ''README'' \<and>
   unique_filename sample_uuid ''README'' = sample_uuid \<and>
   CHR ''.'' \<notin> set ''PNG'' \<and> CHR ''/'' \<notin> set ''PNG'' \<and>
   (\<exists>c \<in> set (takeWhile (\<lambda>c. c \<noteq> CHR ''/'') (rev ''photo'')). c \<noteq> CHR ''.'') \<and>
   unique_filename sample_uuid ''photo.PNG'' = sample_uuid @ ''.PNG''"
proof -
  note t = extension_taken_verbatim [of sample_uuid "''README''" "''PNG''" "''photo''"]
  have h1: "CHR ''.'' \<notin> set ''README''" by simp
  have h2: "CHR ''.'' \<notin> set ''PNG'' \<and> CHR ''/'' \<notin> set ''PNG'' \<and>
    (\<exists>c \<in> set (takeWhile (\<lambda>c. c \<noteq> CHR ''/'') (rev ''photo'')). c \<noteq> CHR ''.'')" by simp
  from t h1 have c1: "unique_filename sample_uuid ''README'' = sample_uuid" by blast
  from t h2 have "unique_filename sample_uuid (''photo'' @ CHR ''.'' # ''PNG'') =
      sample_uuid @ CHR ''.'' # ''PNG''" by blast
  then have c2: "unique_filename sample_uuid ''photo.PNG'' = sample_uuid @ ''.PNG''" by simp
  from h1 h2 c1 c2 show ?thesis by blast
qed

subsection \<open>Statements and what they add to the trace\<close>

lemma io_bind_emit [simp]: "io_bind (emit ev) f w = f () (w\<lparr>trace := trace w @ [ev]\<rparr>)"
  by (simp add: io_bind_def emit_def)

lemma io_bind_return [simp]: "io_bind (io_return x) f w = f x w"
  by (simp add: io_bind_def io_return_def)

lemma io_bind_raise [simp]: "io_bind (raise e) f w = (Inl e, w)"
  by (simp add: io_bind_def raise_def)

lemmas prim_defs = io_bind_def io_return_def raise_def emit_def lift_def call_YOLO_def call_predict_def
  call_plot_def fromarray_def save_def st_image_def getitem0_def len_def store_def

lemma open_error_trace [simp]: "open_error (w\<lparr>trace := t\<rparr>) p = open_error w p"
  by (simp add: open_error_def Let_def)

lemma events_append:
  "trace (snd (m w)) = trace w @ evs \<Longrightarrow> events m w = evs"
  by (simp add: events_def)

lemma events_bind:
  assumes "\<And>w. trace (snd (m w)) = trace w @ events m w"
    and "\<And>x w. trace (snd (f x w)) = trace w @ events (f x) w"
  shows "events (io_bind m f) w =
           events m w @ (case m w of (Inr x, w') \<Rightarrow> events (f x) w' | (Inl e, w') \<Rightarrow> [])"
proof (cases "m w")
  case (Pair r w')
  show ?thesis
  proof (cases r)
    case (Inl e)
    with Pair show ?thesis by (simp add: io_bind_def events_def)
  next
    case (Inr x)
    from assms(1) [of w] Pair have 1: "trace w' = trace w @ events m w" by simp
    from assms(2) [of x w'] have 2: "trace (snd (f x w')) = trace w' @ events (f x) w'" .
    from Pair Inr have "io_bind m f w = f x w'" by (simp add: io_bind_def)
    then have "events (io_bind m f) w = drop (length (trace w)) (trace (snd (f x w')))"
      by (simp add: events_def)
    also have "\<dots> = events m w @ events (f x) w'"
      by (simp add: 1 2)
    finally show ?thesis using Pair Inr by simp
  qed
qed

lemma io_bind_trace:
  assumes "\<And>w. trace (snd (m w)) = trace w @ events m w"
    and "\<And>x w. trace (snd (f x w)) = trace w @ events (f x) w"
  shows "trace (snd (io_bind m f w)) = trace w @ events (io_bind m f) w"
proof -
  have ev: "events (io_bind m f) w =
      events m w @ (case m w of (Inr x, w') \<Rightarrow> events (f x) w' | (Inl e, w') \<Rightarrow> [])"
    using assms by (rule events_bind)
  obtain r w' where mw: "m w = (r, w')" by (cases "m w")
  from assms(1) [of w] mw have 1: "trace w' = trace w @ events m w" by simp
  show ?thesis
  proof (cases r)
    case (Inl e)
    with mw have "io_bind m f w = (Inl e, w')" by (simp add: io_bind_def)
    then have "trace (snd (io_bind m f w)) = trace w'" by simp
    also note 1
    also have "trace w @ events m w = trace w @ events (io_bind m f) w"
      by (simp add: ev mw Inl)
    finally show ?thesis .
  next
    case (Inr x)
    with mw have "io_bind m f w = f x w'" by (simp add: io_bind_def)
    then have "trace (snd (io_bind m f w)) = trace (snd (f x w'))" by simp
    also have "\<dots> = trace w' @ events (f x) w'" by (rule assms(2))
    also have "\<dots> = (trace w @ events m w) @ events (f x) w'" by (simp only: 1)
    also have "\<dots> = trace w @ events (io_bind m f) w"
      by (simp add: ev mw Inr)
    finally show ?thesis .
  qed
qed

subsection \<open>Startup\<close>

lemma startup_result:
  assumes "fs w UPLOAD_FOLDER = None \<or> fs w UPLOAD_FOLDER = Some Dir"
    and "fs w RESULT_FOLDER = None \<or> fs w RESULT_FOLDER = Some Dir"
  shows "\<exists>w'. startup w = (Inr (), w') \<and>
           fs w' = (fs w)(UPLOAD_FOLDER \<mapsto> Dir, RESULT_FOLDER \<mapsto> Dir) \<and>
           trace w' = trace w @ [Mkdir p. p \<leftarrow> [UPLOAD_FOLDER, RESULT_FOLDER], fs w p = None]"
  using assms
  by (auto simp add: startup_def makedirs_def io_bind_def UPLOAD_FOLDER_def
      RESULT_FOLDER_def fun_eq_iff)





lemma startup_returns_iff:
  "(\<exists>w'. startup w = (Inr (), w')) \<longleftrightarrow>
   (fs w UPLOAD_FOLDER = None \<or> fs w UPLOAD_FOLDER = Some Dir) \<and>
   (fs w RESULT_FOLDER = None \<or> fs w RESULT_FOLDER = Some Dir)"
  by (auto simp add: startup_def makedirs_def io_bind_def UPLOAD_FOLDER_def RESULT_FOLDER_def
      split: option.splits node.splits)

lemma startup_Inr:
  assumes "startup w = (Inr (), w')"
  shows "fs w' = (fs w)(UPLOAD_FOLDER \<mapsto> Dir, RESULT_FOLDER \<mapsto> Dir) \<and>
         trace w' = trace w @ [Mkdir p. p \<leftarrow> [UPLOAD_FOLDER, RESULT_FOLDER], fs w p = None]"
proof -
  from assms have "\<exists>w'. startup w = (Inr (), w')" by blast
  then have "(fs w UPLOAD_FOLDER = None \<or> fs w UPLOAD_FOLDER = Some Dir) \<and>
   (fs w RESULT_FOLDER = None \<or> fs w RESULT_FOLDER = Some Dir)"
    by (simp only: startup_returns_iff)
  with startup_result [of w] assms show ?thesis by auto
qed

lemma startup_Inl:
  assumes "startup w = (Inl e, w')"
  shows "exc_class e = ''FileExistsError'' \<and> script env i w = (Inl e, w') \<and>
         events (script env i) w = [Mkdir p. p \<leftarrow> [UPLOAD_FOLDER], fs w p = None]"
  using assms
  by (auto simp add: startup_def script_def makedirs_def io_bind_def events_def
      UPLOAD_FOLDER_def RESULT_FOLDER_def split: option.splits node.splits)

text \<open>
  Claim C7. The two \<^verbatim>\<open>makedirs\<close> calls at the top of the script return normally exactly
  when neither \<^verbatim>\<open>uploads\<close> nor \<^verbatim>\<open>results\<close> is taken by a regular file. Whenever they
  return, both are directories, a directory was created exactly when it was absent,
  nothing else on disk has changed, and the upload handler runs afterwards, in the world
  where both exist. When they do not return, the exception is \<^verbatim>\<open>FileExistsError\<close>, it ends
  the run, and no handler has run: the trace of the run holds at most the creation of the
  first folder.
\<close>

theorem startup_creates_folders:
  "((\<exists>w'. startup w = (Inr (), w')) \<longleftrightarrow>
      (fs w UPLOAD_FOLDER = None \<or> fs w UPLOAD_FOLDER = Some Dir) \<and>
      (fs w RESULT_FOLDER = None \<or> fs w RESULT_FOLDER = Some Dir)) \<and>
   (\<forall>w'. startup w = (Inr (), w') \<longrightarrow>
      fs w' UPLOAD_FOLDER = Some Dir \<and> fs w' RESULT_FOLDER = Some Dir \<and>
      fs w' = (fs w)(UPLOAD_FOLDER \<mapsto> Dir, RESULT_FOLDER \<mapsto> Dir) \<and>
      trace w' = trace w @ [Mkdir p. p \<leftarrow> [UPLOAD_FOLDER, RESULT_FOLDER], fs w p = None] \<and>
      script env i w = upload_handler env i w') \<and>
   (\<forall>e w'. startup w = (Inl e, w') \<longrightarrow>
      exc_class e = ''FileExistsError'' \<and> script env i w = (Inl e, w') \<and>
      events (script env i) w = [Mkdir p. p \<leftarrow> [UPLOAD_FOLDER], fs w p = None])"
proof (intro conjI allI impI)
  show "(\<exists>w'. startup w = (Inr (), w')) \<longleftrightarrow>
      (fs w UPLOAD_FOLDER = None \<or> fs w UPLOAD_FOLDER = Some Dir) \<and>
      (fs w RESULT_FOLDER = None \<or> fs w RESULT_FOLDER = Some Dir)"
    by (rule startup_returns_iff)
next
  fix w' assume s: "startup w = (Inr (), w')"
  note 1 = startup_Inr [OF s]
  from 1 show "fs w' = (fs w)(UPLOAD_FOLDER \<mapsto> Dir, RESULT_FOLDER \<mapsto> Dir)" by simp
  from 1 show "trace w' = trace w @ [Mkdir p. p \<leftarrow> [UPLOAD_FOLDER, RESULT_FOLDER], fs w p = None]"
    by simp
  from 1 show "fs w' UPLOAD_FOLDER = Some Dir"
    by (simp add: UPLOAD_FOLDER_def RESULT_FOLDER_def)
  from 1 show "fs w' RESULT_FOLDER = Some Dir" by simp
  from s show "script env i w = upload_handler env i w'"
    by (simp add: script_def io_bind_def)
next
  fix e w' assume s: "startup w = (Inl e, w')"
  note 1 = startup_Inl [OF s, of env i]
  from 1 show "exc_class e = ''FileExistsError''" by simp
  from 1 show "script env i w = (Inl e, w')" by simp
  from 1 show "events (script env i) w = [Mkdir p. p \<leftarrow> [UPLOAD_FOLDER], fs w p = None]" by simp
qed

theorem startup_creates_folders_witness:
  "(fs empty_world UPLOAD_FOLDER = None \<or> fs empty_world UPLOAD_FOLDER = Some Dir) \<and>
   (fs empty_world RESULT_FOLDER = None \<or> fs empty_world RESULT_FOLDER = Some Dir) \<and>
   (\<exists>w'. startup empty_world = (Inr (), w') \<and>
      fs w' = [''uploads'' \<mapsto> Dir, ''results'' \<mapsto> Dir] \<and>
      trace w' = [Mkdir ''uploads'', Mkdir ''results''] \<and>
      script sample_env sample_upload empty_world = upload_handler sample_env sample_upload w') \<and>
   (\<exists>e w'. startup blocked_world = (Inl e, w') \<and> exc_class e = ''FileExistsError'' \<and>
      script sample_env sample_upload blocked_world = (Inl e, w') \<and>
      events (script sample_env sample_upload) blocked_world = [])"
proof -
  note t = startup_creates_folders [of empty_world sample_env sample_upload]
  have h: "(fs empty_world UPLOAD_FOLDER = None \<or> fs empty_world UPLOAD_FOLDER = Some Dir) \<and>
   (fs empty_world RESULT_FOLDER = None \<or> fs empty_world RESULT_FOLDER = Some Dir)"
    by (simp add: empty_world_def)
  with t obtain w' where s: "startup empty_world = (Inr (), w')" by blast
  with t have "fs w' = (fs empty_world)(UPLOAD_FOLDER \<mapsto> Dir, RESULT_FOLDER \<mapsto> Dir) \<and>
      trace w' = trace empty_world @
        [Mkdir p. p \<leftarrow> [UPLOAD_FOLDER, RESULT_FOLDER], fs empty_world p = None] \<and>
      script sample_env sample_upload empty_world = upload_handler sample_env sample_upload w'"
    by blast
  then have "fs w' = [''uploads'' \<mapsto> Dir, ''results'' \<mapsto> Dir] \<and>
      trace w' = [Mkdir ''uploads'', Mkdir ''results''] \<and>
      script sample_env sample_upload empty_world = upload_handler sample_env sample_upload w'"
    by (simp add: empty_world_def UPLOAD_FOLDER_def RESULT_FOLDER_def)
  with s have ok: "\<exists>w'. startup empty_world = (Inr (), w') \<and>
      fs w' = [''uploads'' \<mapsto> Dir, ''results'' \<mapsto> Dir] \<and>
      trace w' = [Mkdir ''uploads'', Mkdir ''results''] \<and>
      script sample_env sample_upload empty_world = upload_handler sample_env sample_upload w'"
    by blast
  note b = startup_creates_folders [of blocked_world sample_env sample_upload]
  obtain e w'' where sb: "startup blocked_world = (Inl e, w'')"
    by (simp add: startup_def makedirs_def io_bind_def blocked_world_def UPLOAD_FOLDER_def)
  with b have "exc_class e = ''FileExistsError'' \<and>
      script sample_env sample_upload blocked_world = (Inl e, w'') \<and>
      events (script sample_env sample_upload) blocked_world =
        [Mkdir p. p \<leftarrow> [UPLOAD_FOLDER], fs blocked_world p = None]"
    by blast
  then have "exc_class e = ''FileExistsError'' \<and>
      script sample_env sample_upload blocked_world = (Inl e, w'') \<and>
      events (script sample_env sample_upload) blocked_world = []"
    by (simp add: blocked_world_def UPLOAD_FOLDER_def)
  with sb have blocked: "\<exists>e w'. startup blocked_world = (Inl e, w') \<and>
      exc_class e = ''FileExistsError'' \<and>
      script sample_env sample_upload blocked_world = (Inl e, w') \<and>
      events (script sample_env sample_upload) blocked_world = []"
    by blast
  from h ok blocked show ?thesis by blast
qed

subsection \<open>The \<^verbatim>\<open>try\<close> statement\<close>

lemmas try_defs = try_block_def run_prediction_def save_result_def show_result_def prim_defs

lemma try_block_fst:
  "fst (try_block env unique w) =
     (case raised_in_try env unique w of Some e \<Rightarrow> Inl e | None \<Rightarrow> Inr ())"
  by (simp add: try_defs raised_in_try_def
      split: sum.split option.split list.split prod.split)

lemma run_prediction_trace:
  "trace (snd (run_prediction env unique w)) = trace w @ events (run_prediction env unique) w"
  by (simp add: run_prediction_def prim_defs events_def split: sum.split)

lemma save_result_trace:
  "trace (snd (save_result env unique rs w)) = trace w @ events (save_result env unique rs) w"
  by (simp add: save_result_def prim_defs events_def split: sum.split option.split list.split)

lemma show_result_trace:
  "trace (snd (show_result env unique rs w)) = trace w @ events (show_result env unique rs) w"
  by (simp add: show_result_def prim_defs events_def split: sum.split option.split list.split)

lemma save_show_trace:
  "trace (snd (io_bind (save_result env unique rs) (\<lambda>_. show_result env unique rs) w)) =
   trace w @ events (io_bind (save_result env unique rs) (\<lambda>_. show_result env unique rs)) w"
  by (rule io_bind_trace) (rule save_result_trace show_result_trace)+

lemma try_block_trace:
  "trace (snd (try_block env unique w)) = trace w @ events (try_block env unique) w"
  unfolding try_block_def
  by (rule io_bind_trace) (rule run_prediction_trace save_show_trace)+

lemma try_block_events:
  "events (try_block env unique) w =
     events (run_prediction env unique) w @
     (case run_prediction env unique w of
        (Inr rs, w1) \<Rightarrow>
          events (save_result env unique rs) w1 @
          (case save_result env unique rs w1 of
             (Inr x, w2) \<Rightarrow> events (show_result env unique rs) w2
           | (Inl e, w2) \<Rightarrow> [])
      | (Inl e, w1) \<Rightarrow> [])"
proof -
  have 1: "events (try_block env unique) w =
          events (run_prediction env unique) w @
          (case run_prediction env unique w of
             (Inr rs, w') \<Rightarrow>
               events (io_bind (save_result env unique rs) (\<lambda>_. show_result env unique rs)) w'
           | (Inl e, w') \<Rightarrow> [])"
    unfolding try_block_def
    by (rule events_bind) (rule run_prediction_trace save_show_trace)+
  have 2: "events (io_bind (save_result env unique rs) (\<lambda>_. show_result env unique rs)) w' =
          events (save_result env unique rs) w' @
          (case save_result env unique rs w' of
             (Inr x, w2) \<Rightarrow> events (show_result env unique rs) w2
           | (Inl e, w2) \<Rightarrow> [])" for rs w'
    by (rule events_bind) (rule save_result_trace show_result_trace)+
  show ?thesis unfolding 1 by (simp add: 2 split: prod.split sum.split)
qed

lemma run_prediction_calls:
  "filter is_library_call (events (run_prediction env unique) w) =
     (case YOLO env (MODEL_PATH env) of
        Inl e \<Rightarrow> [Call_YOLO (MODEL_PATH env)]
      | Inr m \<Rightarrow> [Call_YOLO (MODEL_PATH env), Call_predict (input_path unique)])"
  by (simp add: run_prediction_def prim_defs events_def is_library_call_def split: sum.split)

lemma run_prediction_Inr:
  "run_prediction env unique w = (Inr rs, w') \<Longrightarrow> \<exists>m. YOLO env (MODEL_PATH env) = Inr m"
  by (cases "YOLO env (MODEL_PATH env)") (simp_all add: run_prediction_def prim_defs)

lemma save_result_calls:
  "filter is_library_call (events (save_result env unique rs) w) =
     take (case rs of [] \<Rightarrow> 0 | r # rest \<Rightarrow>
            (case plot r of Inl e \<Rightarrow> 1 | Inr a \<Rightarrow>
            (case fromarray_error env (reverse_last_axis a) of Some e \<Rightarrow> 2 | None \<Rightarrow> 3)))
       [Call_plot, Call_fromarray, Call_save (result_path unique)]"
  by (simp add: save_result_def prim_defs events_def is_library_call_def
      split: sum.split option.split list.split)

lemma show_result_calls:
  "filter is_library_call (events (show_result env unique rs) w) = []"
  by (simp add: show_result_def prim_defs events_def is_library_call_def
      split: sum.split option.split list.split)

lemma save_show_calls:
  "\<exists>k. filter is_library_call
          (events (io_bind (save_result env unique rs) (\<lambda>_. show_result env unique rs)) w) =
        take k [Call_plot, Call_fromarray, Call_save (result_path unique)]"
proof -
  have "events (io_bind (save_result env unique rs) (\<lambda>_. show_result env unique rs)) w =
          events (save_result env unique rs) w @
          (case save_result env unique rs w of
             (Inr x, w') \<Rightarrow> events (show_result env unique rs) w'
           | (Inl e, w') \<Rightarrow> [])"
    by (rule events_bind) (rule save_result_trace show_result_trace)+
  then have "filter is_library_call
          (events (io_bind (save_result env unique rs) (\<lambda>_. show_result env unique rs)) w) =
        filter is_library_call (events (save_result env unique rs) w)"
    by (simp add: show_result_calls split: prod.split sum.split)
  then show ?thesis
    unfolding save_result_calls by (rule exI)
qed

lemma try_block_calls:
  "\<exists>k. filter is_library_call (events (try_block env unique) w) =
     take k [Call_YOLO (MODEL_PATH env), Call_predict (input_path unique), Call_plot,
             Call_fromarray, Call_save (result_path unique)]"
proof -
  let ?rest = "\<lambda>rs. io_bind (save_result env unique rs) (\<lambda>_. show_result env unique rs)"
  let ?cs = "[Call_YOLO (MODEL_PATH env), Call_predict (input_path unique), Call_plot,
             Call_fromarray, Call_save (result_path unique)]"
  have ev: "events (try_block env unique) w =
          events (run_prediction env unique) w @
          (case run_prediction env unique w of
             (Inr rs, w') \<Rightarrow> events (?rest rs) w'
           | (Inl e, w') \<Rightarrow> [])"
    unfolding try_block_def
    by (rule events_bind) (rule run_prediction_trace save_show_trace)+
  obtain x w' where rp: "run_prediction env unique w = (x, w')"
    by (cases "run_prediction env unique w")
  show ?thesis
  proof (cases x)
    case (Inl e)
    with ev rp have eq: "filter is_library_call (events (try_block env unique) w) =
        filter is_library_call (events (run_prediction env unique) w)" by simp
    show ?thesis
    proof (cases "YOLO env (MODEL_PATH env)")
      case Inl
      then have "filter is_library_call (events (try_block env unique) w) = take (Suc 0) ?cs"
        by (simp add: eq run_prediction_calls)
      then show ?thesis ..
    next
      case Inr
      then have "filter is_library_call (events (try_block env unique) w) = take (Suc (Suc 0)) ?cs"
        by (simp add: eq run_prediction_calls)
      then show ?thesis ..
    qed
  next
    case (Inr rs)
    with rp obtain m where "YOLO env (MODEL_PATH env) = Inr m"
      using run_prediction_Inr by blast
    then have 1: "filter is_library_call (events (run_prediction env unique) w) =
        [Call_YOLO (MODEL_PATH env), Call_predict (input_path unique)]"
      by (simp add: run_prediction_calls)
    from save_show_calls [of env unique rs w'] obtain k where
      2: "filter is_library_call (events (?rest rs) w') =
            take k [Call_plot, Call_fromarray, Call_save (result_path unique)]" by blast
    from ev rp Inr have "filter is_library_call (events (try_block env unique) w) =
        filter is_library_call (events (run_prediction env unique) w) @
        filter is_library_call (events (?rest rs) w')" by simp
    then have "filter is_library_call (events (try_block env unique) w) =
        take (Suc (Suc k)) ?cs" by (simp only: 1 2 take_Suc_Cons append_Cons append_Nil)
    then show ?thesis ..
  qed
qed

lemma run_prediction_writes:
  "filter (is_write_to p) (events (run_prediction env unique) w) = []"
  by (simp add: run_prediction_def prim_defs events_def is_write_to_def split: sum.split)

lemma show_result_writes:
  "filter (is_write_to p) (events (show_result env unique rs) w) = []"
  by (simp add: show_result_def prim_defs events_def is_write_to_def
      split: sum.split option.split list.split)

lemma save_result_writes_other:
  "p \<noteq> result_path unique \<Longrightarrow> filter (is_write_to p) (events (save_result env unique rs) w) = []"
  by (simp add: save_result_def prim_defs events_def is_write_to_def
      split: sum.split option.split list.split)


lemma try_block_writes_other:
  "p \<noteq> result_path unique \<Longrightarrow> filter (is_write_to p) (events (try_block env unique) w) = []"
  by (simp add: try_block_events run_prediction_writes show_result_writes save_result_writes_other
      split: prod.split sum.split)


lemma try_block_frame:
  "p \<noteq> result_path unique \<Longrightarrow> fs (snd (try_block env unique w)) p = fs w p"
  by (simp add: try_defs
      split: sum.split option.split list.split prod.split)


lemma show_result_frame: "fs (snd (show_result env unique rs w)) = fs w"
  by (simp add: show_result_def prim_defs split: sum.split option.split list.split)

lemma try_block_success:
  assumes "YOLO env (MODEL_PATH env) = Inr m"
    and "predict m (input_path unique) = Inr (r # rest)"
    and "plot r = Inr a"
    and "fromarray_error env (reverse_last_axis a) = None"
    and "save_error env (Image (reverse_last_axis a)) (result_path unique) = None"
    and "open_error w (result_path unique) = None"
    and "st_image_error env (result_path unique) = None"
    and "boxes r = Some bs"
  shows "try_block env unique w =
    (Inr (), w\<lparr>fs := (fs w)(result_path unique \<mapsto>
                File (Encoded (save_format (result_path unique)) (Image (reverse_last_axis a)))),
              trace := trace w @
                [Call_YOLO (MODEL_PATH env), Call_predict (input_path unique), Call_plot,
                 Call_fromarray, Call_save (result_path unique),
                 Write (result_path unique)
                   (Encoded (save_format (result_path unique)) (Image (reverse_last_axis a))),
                 St_subheader ''2. Detection Results'',
                 St_image (result_path unique) ''Detected Damages'',
                 if bs = [] then St_info ''No visible damage detected.''
                 else St_success (''Detected '' @ str_nat (length bs) @ '' issue(s)!'')]\<rparr>)"
  using assms by (simp add: try_defs)

lemma saved_up_to_here:
  assumes "YOLO env (MODEL_PATH env) = Inr m"
    and "predict m (input_path unique) = Inr (r # rest)"
    and "plot r = Inr a"
    and "fromarray_error env (reverse_last_axis a) = None"
    and "save_error env (Image (reverse_last_axis a)) (result_path unique) = None"
    and "open_error w (result_path unique) = None"
  shows "\<exists>w1 w2. run_prediction env unique w = (Inr (r # rest), w1) \<and>
           save_result env unique (r # rest) w1 = (Inr (), w2) \<and>
           fs w2 = (fs w)(result_path unique \<mapsto>
             File (Encoded (save_format (result_path unique)) (Image (map (map rev) a)))) \<and>
           filter (is_write_to (result_path unique)) (events (save_result env unique (r # rest)) w1) =
             [Write (result_path unique)
                (Encoded (save_format (result_path unique)) (Image (map (map rev) a)))]"
  using assms
  by (simp add: run_prediction_def save_result_def prim_defs events_def is_write_to_def
      reverse_last_axis_def)

lemma try_block_saved:
  assumes "YOLO env (MODEL_PATH env) = Inr m"
    and "predict m (input_path unique) = Inr (r # rest)"
    and "plot r = Inr a"
    and "fromarray_error env (reverse_last_axis a) = None"
    and "save_error env (Image (reverse_last_axis a)) (result_path unique) = None"
    and "open_error w (result_path unique) = None"
  shows "fs (snd (try_block env unique w)) =
           (fs w)(result_path unique \<mapsto>
             File (Encoded (save_format (result_path unique)) (Image (map (map rev) a)))) \<and>
         filter (is_write_to (result_path unique)) (events (try_block env unique) w) =
           [Write (result_path unique)
              (Encoded (save_format (result_path unique)) (Image (map (map rev) a)))]"
proof -
  from saved_up_to_here [OF assms] obtain w1 w2 where
    1: "run_prediction env unique w = (Inr (r # rest), w1)"
    and 2: "save_result env unique (r # rest) w1 = (Inr (), w2)"
    and 3: "fs w2 = (fs w)(result_path unique \<mapsto>
             File (Encoded (save_format (result_path unique)) (Image (map (map rev) a))))"
    and 4: "filter (is_write_to (result_path unique)) (events (save_result env unique (r # rest)) w1) =
             [Write (result_path unique)
                (Encoded (save_format (result_path unique)) (Image (map (map rev) a)))]"
    by blast
  have "snd (try_block env unique w) = snd (show_result env unique (r # rest) w2)"
    by (simp add: try_block_def io_bind_def 1 2)
  then have a: "fs (snd (try_block env unique w)) = fs w2" by (simp add: show_result_frame)
  have "filter (is_write_to (result_path unique)) (events (try_block env unique) w) =
      filter (is_write_to (result_path unique)) (events (save_result env unique (r # rest)) w1)"
    by (simp add: try_block_events 1 2 run_prediction_writes show_result_writes)
  with a 3 4 show ?thesis by simp
qed

lemma raised_in_try_None:
  assumes "raised_in_try env unique w = None"
  obtains m r rest a bs where "YOLO env (MODEL_PATH env) = Inr m"
    and "predict m (input_path unique) = Inr (r # rest)"
    and "plot r = Inr a"
    and "fromarray_error env (reverse_last_axis a) = None"
    and "save_error env (Image (reverse_last_axis a)) (result_path unique) = None"
    and "open_error w (result_path unique) = None"
    and "st_image_error env (result_path unique) = None"
    and "boxes r = Some bs"
proof -
  from assms obtain m where m: "YOLO env (MODEL_PATH env) = Inr m"
    by (cases "YOLO env (MODEL_PATH env)") (simp_all add: raised_in_try_def)
  from assms m obtain rs where rs: "predict m (input_path unique) = Inr rs"
    by (cases "predict m (input_path unique)") (simp_all add: raised_in_try_def)
  from assms m rs obtain r rest where r: "rs = r # rest"
    by (cases rs) (simp_all add: raised_in_try_def)
  from assms m rs r obtain a where a: "plot r = Inr a"
    by (cases "plot r") (simp_all add: raised_in_try_def)
  from assms m rs r a have f: "fromarray_error env (reverse_last_axis a) = None"
    by (cases "fromarray_error env (reverse_last_axis a)") (simp_all add: raised_in_try_def)
  from assms m rs r a f have s: "save_error env (Image (reverse_last_axis a)) (result_path unique) = None"
    by (cases "save_error env (Image (reverse_last_axis a)) (result_path unique)")
      (simp_all add: raised_in_try_def)
  from assms m rs r a f s have opn: "open_error w (result_path unique) = None"
    by (cases "open_error w (result_path unique)") (simp_all add: raised_in_try_def)
  from assms m rs r a f s opn have i: "st_image_error env (result_path unique) = None"
    by (cases "st_image_error env (result_path unique)") (simp_all add: raised_in_try_def)
  from assms m rs r a f s opn i obtain bs where "boxes r = Some bs"
    by (cases "boxes r") (simp_all add: raised_in_try_def)
  with m rs r a f s opn i show thesis using that by blast
qed

subsection \<open>The button handler\<close>

lemma analyze_fs:
  "exists w (MODEL_PATH env) \<Longrightarrow> fs (snd (analyze env unique w)) = fs (snd (try_block env unique w))"
  by (simp add: analyze_def emit_def split: prod.split sum.split)

lemma analyze_frame:
  assumes "p \<noteq> result_path unique"
  shows "fs (snd (analyze env unique w)) p = fs w p"
proof (cases "exists w (MODEL_PATH env)")
  case True
  then have "fs (snd (analyze env unique w)) = fs (snd (try_block env unique w))"
    by (rule analyze_fs)
  with try_block_frame [OF assms, of env w] show ?thesis by simp
next
  case False
  then show ?thesis by (simp add: analyze_def emit_def)
qed


lemma analyze_success:
  assumes "exists w (MODEL_PATH env)" and "try_block env unique w = (Inr (), w')"
  shows "analyze env unique w = (Inr (), w')"
  using assms by (simp add: analyze_def)

lemma analyze_events_success:
  assumes "exists w (MODEL_PATH env)" and "try_block env unique w = (Inr (), w')"
  shows "events (analyze env unique) w = events (try_block env unique) w"
  using assms by (simp add: analyze_def events_def)

lemma analyze_events:
  "events (analyze env unique) w =
     (if \<not> exists w (MODEL_PATH env) then [St_error (model_not_found env)]
      else events (try_block env unique) w @
        (case fst (try_block env unique w) of
           Inl e \<Rightarrow> if is_Exception e
                    then [St_error (''Error during detection: '' @ exc_str e)] else []
         | Inr u \<Rightarrow> []))"
proof (cases "exists w (MODEL_PATH env)")
  case False
  then show ?thesis by (simp add: analyze_def emit_def events_def)
next
  case True
  obtain x w' where t: "try_block env unique w = (x, w')" by (cases "try_block env unique w")
  from try_block_trace [of env unique w] t
  have tr: "trace w' = trace w @ events (try_block env unique) w" by simp
  define tail where "tail =
    (case x of
       Inl e \<Rightarrow> if is_Exception e
                then [St_error (''Error during detection: '' @ exc_str e)] else []
     | Inr u \<Rightarrow> [])"
  from True t have "trace (snd (analyze env unique w)) = trace w' @ tail"
    by (simp add: analyze_def emit_def tail_def split: sum.split)
  then have "trace (snd (analyze env unique w)) = trace w @ (events (try_block env unique) w @ tail)"
    by (simp only: tr append_assoc)
  then have "events (analyze env unique) w = events (try_block env unique) w @ tail"
    by (rule events_append)
  with True t show ?thesis by (simp add: tail_def)
qed

lemma analyze_trace:
  "trace (snd (analyze env unique w)) = trace w @ events (analyze env unique) w"
proof (cases "exists w (MODEL_PATH env)")
  case False
  then show ?thesis by (simp add: analyze_events) (simp add: analyze_def emit_def)
next
  case True
  obtain x w' where t: "try_block env unique w = (x, w')" by (cases "try_block env unique w")
  from try_block_trace [of env unique w] t
  have tr: "trace w' = trace w @ events (try_block env unique) w" by simp
  define tail where "tail =
    (case x of
       Inl e \<Rightarrow> if is_Exception e
                then [St_error (''Error during detection: '' @ exc_str e)] else []
     | Inr u \<Rightarrow> [])"
  from True t have "trace (snd (analyze env unique w)) = trace w' @ tail"
    by (simp add: analyze_def emit_def tail_def split: sum.split)
  then have "trace (snd (analyze env unique w)) = trace w @ (events (try_block env unique) w @ tail)"
    by (simp only: tr append_assoc)
  moreover from True t have "events (analyze env unique) w = events (try_block env unique) w @ tail"
    by (simp add: analyze_events tail_def)
  ultimately show ?thesis by simp
qed

lemma analyze_writes_other:
  "p \<noteq> result_path unique \<Longrightarrow> filter (is_write_to p) (events (analyze env unique) w) = []"
  by (simp add: analyze_events try_block_writes_other is_write_to_def split: sum.split)


lemma analyze_writes:
  "exists w (MODEL_PATH env) \<Longrightarrow>
   filter (is_write_to p) (events (analyze env unique) w) =
   filter (is_write_to p) (events (try_block env unique) w)"
  by (simp add: analyze_events is_write_to_def split: sum.split)

lemma sample_paths:
  "MODEL_PATH sample_env = ''/srv/app/damage-detector.pt''"
  "MODEL_PATH clean_env = ''/srv/app/damage-detector.pt''"
  "MODEL_PATH interrupted_env = ''/srv/app/damage-detector.pt''"
  "input_path ''u.png'' = ''uploads/u.png''"
  "result_path ''u.png'' = ''results/result_u.png''"
  "input_path ''u.jpg'' = ''uploads/u.jpg''"
  "result_path ''u.jpg'' = ''results/result_u.jpg''"
  by (simp_all add: MODEL_PATH_def sample_env_def clean_env_def interrupted_env_def join_def
      input_path_def UPLOAD_FOLDER_def result_path_eq)

lemma sample_formats:
  "save_format ''results/result_u.png'' = ''.png''"
  "save_format ''results/result_u.jpg'' = ''.jpg''"
  using splitext_ext [of "''png''" "''results/result_u''"]
    splitext_ext [of "''jpg''" "''results/result_u''"]
  by (simp_all add: save_format_def lower_def lower_char_def)

lemma sample_open:
  "open_error sample_world ''results/result_u.png'' = None"
  "open_error sample_world ''results/result_u.jpg'' = None"
proof -
  have "dirname (''results/result_'' @ ''u.png'') = ''results''"
    "dirname (''results/result_'' @ ''u.jpg'') = ''results''"
    by (rule dirname_results, simp)+
  then show "open_error sample_world ''results/result_u.png'' = None"
    "open_error sample_world ''results/result_u.jpg'' = None"
    by (simp_all add: open_error_def sample_world_def)
qed

lemma sample_stages:
  "exists sample_world (MODEL_PATH sample_env)"
  "YOLO sample_env (MODEL_PATH sample_env) = Inr (Model (\<lambda>q. Inr [sample_result, clean_result]))"
  "predict (Model (\<lambda>q. Inr [sample_result, clean_result])) (input_path ''u.png'') =
     Inr (sample_result # [clean_result])"
  "plot sample_result = Inr [[[1, 2, 3], [4, 5, 6]]]"
  "fromarray_error sample_env (reverse_last_axis [[[1, 2, 3], [4, 5, 6]]]) = None"
  "save_error sample_env (Image (reverse_last_axis [[[1, 2, 3], [4, 5, 6]]])) (result_path ''u.png'') = None"
  "open_error sample_world (result_path ''u.png'') = None"
  "st_image_error sample_env (result_path ''u.png'') = None"
  "boxes sample_result = Some [Box 0, Box 2]"
proof -
  show "exists sample_world (MODEL_PATH sample_env)"
    by (simp add: sample_paths exists_def sample_world_def)
  show "open_error sample_world (result_path ''u.png'') = None"
    by (simp add: sample_paths sample_open)
qed (simp_all add: sample_env_def sample_result_def)

lemma jpg_stages:
  "exists sample_world (MODEL_PATH sample_env)"
  "YOLO sample_env (MODEL_PATH sample_env) = Inr (Model (\<lambda>q. Inr [sample_result, clean_result]))"
  "predict (Model (\<lambda>q. Inr [sample_result, clean_result])) (input_path ''u.jpg'') =
     Inr (sample_result # [clean_result])"
  "plot sample_result = Inr [[[1, 2, 3], [4, 5, 6]]]"
  "fromarray_error sample_env (reverse_last_axis [[[1, 2, 3], [4, 5, 6]]]) = None"
  "save_error sample_env (Image (reverse_last_axis [[[1, 2, 3], [4, 5, 6]]])) (result_path ''u.jpg'') = None"
  "open_error sample_world (result_path ''u.jpg'') = None"
proof -
  show "exists sample_world (MODEL_PATH sample_env)"
    by (simp add: sample_paths exists_def sample_world_def)
  show "open_error sample_world (result_path ''u.jpg'') = None"
    by (simp add: sample_paths sample_open)
qed (simp_all add: sample_env_def sample_result_def)

text \<open>
  Claim C1. When nothing exists at the model path, the button handler shows the
  ``Model file not found'' error and does nothing else: the world after the handler is the
  world before it plus that one message, so the trace holds no call of \<^verbatim>\<open>YOLO\<close> and no call
  of \<^verbatim>\<open>predict\<close>. The handler returns normally; the next run starts from the same files.
\<close>

theorem missing_model_reported:
  "\<not> exists w (MODEL_PATH env) \<Longrightarrow>
   analyze env unique w =
     (Inr (), w\<lparr>trace := trace w @
        [St_error (''Model file not found at: '' @ MODEL_PATH env @
           ''. Please ensure 'damage-detector.pt' is in the project directory.'')]\<rparr>)"
  by (simp add: analyze_def emit_def model_not_found_def)

theorem missing_model_reported_witness:
  "\<not> exists empty_world (MODEL_PATH sample_env) \<and>
   analyze sample_env ''u.png'' empty_world =
     (Inr (), \<lparr>fs = Map.empty, trace =
        [St_error (''Model file not found at: /srv/app/damage-detector.pt'' @
           ''. Please ensure 'damage-detector.pt' is in the project directory.'')]\<rparr>)"
proof -
  have h: "\<not> exists empty_world (MODEL_PATH sample_env)"
    by (simp add: exists_def empty_world_def)
  from missing_model_reported [OF h, of "''u.png''"] h show ?thesis
    by (simp add: empty_world_def MODEL_PATH_def sample_env_def join_def)
qed

text \<open>
  Claim C3, as the code has it. The exception of the first stage of the \<^verbatim>\<open>try\<close> statement
  that raises (loading the model, the prediction, taking the first result, plotting,
  building or saving the picture, showing it with \<^verbatim>\<open>st.image\<close>, counting the boxes) leaves
  the \<^verbatim>\<open>try\<close> body. If it is an instance of \<^verbatim>\<open>Exception\<close>, the handler catches it, shows
  ``Error during detection: '' followed by the text of the exception, unchanged, and
  returns normally. If it is not (\<^verbatim>\<open>KeyboardInterrupt\<close>, \<^verbatim>\<open>SystemExit\<close>, a stop or rerun
  signal of the framework), \<^verbatim>\<open>except Exception\<close> lets it pass: it leaves the handler and
  nothing is shown. In both cases the library calls made are an initial piece of the
  sequence load, predict, plot, fromarray, save: none is made twice.
\<close>

lemma try_block_predict_raises:
  assumes "YOLO env (MODEL_PATH env) = Inr m" and "predict m (input_path unique) = Inl e"
  shows "try_block env unique w =
    (Inl e, w\<lparr>trace := trace w @
       [Call_YOLO (MODEL_PATH env), Call_predict (input_path unique)]\<rparr>)"
  using assms by (simp add: try_defs)

theorem detection_exception_reported:
  assumes "exists w (MODEL_PATH env)" and "raised_in_try env unique w = Some e"
  shows "\<exists>w'. try_block env unique w = (Inl e, w') \<and>
           (is_Exception e \<longrightarrow>
              analyze env unique w =
                (Inr (), w'\<lparr>trace := trace w' @
                   [St_error (''Error during detection: '' @ exc_str e)]\<rparr>)) \<and>
           (\<not> is_Exception e \<longrightarrow> analyze env unique w = (Inl e, w')) \<and>
           (\<exists>k. filter is_library_call (events (analyze env unique) w) =
              take k [Call_YOLO (MODEL_PATH env), Call_predict (input_path unique),
                      Call_plot, Call_fromarray, Call_save (result_path unique)])"
proof -
  obtain x w' where t: "try_block env unique w = (x, w')" by (cases "try_block env unique w")
  with try_block_fst [of env unique w] assms(2) have x: "x = Inl e" by simp
  from t x assms(1) have caught: "is_Exception e \<longrightarrow>
      analyze env unique w =
        (Inr (), w'\<lparr>trace := trace w' @ [St_error (''Error during detection: '' @ exc_str e)]\<rparr>)"
    and uncaught: "\<not> is_Exception e \<longrightarrow> analyze env unique w = (Inl e, w')"
    by (simp_all add: analyze_def emit_def)
  have "filter is_library_call (events (analyze env unique) w) =
      filter is_library_call (events (try_block env unique) w)"
    using assms(1) by (simp add: analyze_events is_library_call_def split: sum.split)
  with try_block_calls [of env unique w]
  have "\<exists>k. filter is_library_call (events (analyze env unique) w) =
              take k [Call_YOLO (MODEL_PATH env), Call_predict (input_path unique),
                      Call_plot, Call_fromarray, Call_save (result_path unique)]"
    by simp
  with t x caught uncaught show ?thesis by blast
qed

theorem detection_exception_reported_witness:
  "exists sample_world (MODEL_PATH broken_env) \<and>
   raised_in_try broken_env ''u.png'' sample_world = Some (PyException ''RuntimeError'' ''bad weights'') \<and>
   is_Exception (PyException ''RuntimeError'' ''bad weights'') \<and>
   (\<exists>w'. try_block broken_env ''u.png'' sample_world = (Inl (PyException ''RuntimeError'' ''bad weights''), w') \<and>
      analyze broken_env ''u.png'' sample_world =
        (Inr (), w'\<lparr>trace := trace w' @ [St_error ''Error during detection: bad weights'']\<rparr>) \<and>
      (\<exists>k. filter is_library_call (events (analyze broken_env ''u.png'') sample_world) =
         take k [Call_YOLO ''/srv/app/damage-detector.pt'', Call_predict ''uploads/u.png'',
                 Call_plot, Call_fromarray, Call_save ''results/result_u.png'']))"
proof -
  have mp: "MODEL_PATH broken_env = ''/srv/app/damage-detector.pt''"
    by (simp add: MODEL_PATH_def broken_env_def sample_env_def join_def)
  have h1: "exists sample_world (MODEL_PATH broken_env)"
    by (simp add: mp exists_def sample_world_def)
  have h2: "raised_in_try broken_env ''u.png'' sample_world =
      Some (PyException ''RuntimeError'' ''bad weights'')"
    by (simp add: raised_in_try_def broken_env_def sample_env_def)
  have h3: "is_Exception (PyException ''RuntimeError'' ''bad weights'')"
    by (simp add: is_Exception_def)
  from detection_exception_reported [OF h1 h2] h1 h2 h3 show ?thesis
    by (simp add: mp sample_paths)
qed

text \<open>
  The unrestricted statement, that any exception of the prediction is caught and shown,
  fails for a \<^verbatim>\<open>KeyboardInterrupt\<close> raised by \<^verbatim>\<open>predict\<close>: the handler ends with that
  exception and the trace holds the two library calls and no message.
\<close>

theorem keyboard_interrupt_not_caught:
  "exists sample_world (MODEL_PATH interrupted_env) \<and>
   raised_in_try interrupted_env ''u.png'' sample_world =
     Some (PyBaseException ''KeyboardInterrupt'' []) \<and>
   analyze interrupted_env ''u.png'' sample_world =
     (Inl (PyBaseException ''KeyboardInterrupt'' []),
      sample_world\<lparr>trace := [Call_YOLO ''/srv/app/damage-detector.pt'',
                              Call_predict ''uploads/u.png'']\<rparr>)"
proof -
  have h1: "exists sample_world (MODEL_PATH interrupted_env)"
    by (simp add: sample_paths exists_def sample_world_def)
  have h2: "raised_in_try interrupted_env ''u.png'' sample_world =
     Some (PyBaseException ''KeyboardInterrupt'' [])"
    by (simp add: raised_in_try_def interrupted_env_def sample_env_def)
  have "YOLO interrupted_env (MODEL_PATH interrupted_env) =
      Inr (Model (\<lambda>q. Inl (PyBaseException ''KeyboardInterrupt'' [])))"
    by (simp add: interrupted_env_def)
  moreover have "predict (Model (\<lambda>q. Inl (PyBaseException ''KeyboardInterrupt'' [])))
      (input_path ''u.png'') = Inl (PyBaseException ''KeyboardInterrupt'' [])"
    by simp
  ultimately have "try_block interrupted_env ''u.png'' sample_world =
     (Inl (PyBaseException ''KeyboardInterrupt'' []),
      sample_world\<lparr>trace := trace sample_world @
        [Call_YOLO (MODEL_PATH interrupted_env), Call_predict (input_path ''u.png'')]\<rparr>)"
    by (rule try_block_predict_raises)
  then have "try_block interrupted_env ''u.png'' sample_world =
     (Inl (PyBaseException ''KeyboardInterrupt'' []),
      sample_world\<lparr>trace := [Call_YOLO ''/srv/app/damage-detector.pt'',
                              Call_predict ''uploads/u.png'']\<rparr>)"
    by (simp add: sample_paths sample_world_def)
  with h1 have "analyze interrupted_env ''u.png'' sample_world =
     (Inl (PyBaseException ''KeyboardInterrupt'' []),
      sample_world\<lparr>trace := [Call_YOLO ''/srv/app/damage-detector.pt'',
                              Call_predict ''uploads/u.png'']\<rparr>)"
    by (simp add: analyze_def is_Exception_def)
  with h1 h2 show ?thesis by blast
qed

lemma digit_value:
  assumes "d < 10"
  shows "of_char (''0123456789'' ! d) - (48::nat) = d"
proof -
  from assms have "d = 0 \<or> d = 1 \<or> d = 2 \<or> d = 3 \<or> d = 4 \<or> d = 5 \<or> d = 6 \<or> d = 7 \<or> d = 8 \<or> d = 9"
    by arith
  then show ?thesis by (elim disjE) simp_all
qed

lemma str_nat_decimal: "foldl (\<lambda>a c. 10 * a + (of_char c - 48)) 0 (str_nat n) = n"
proof (induction n rule: str_nat.induct)
  case (1 n)
  show ?case
  proof (cases "n < 10")
    case True
    then show ?thesis by (subst str_nat.simps) (simp add: digit_value)
  next
    case False
    have d: "of_char (''0123456789'' ! (n mod 10)) - 48 = n mod 10"
      by (rule digit_value) simp
    from False "1.IH" have "foldl (\<lambda>a c. 10 * a + (of_char c - 48)) 0 (str_nat (n div 10)) = n div 10"
      by simp
    with False d show ?thesis by (subst str_nat.simps) simp
  qed
qed

text \<open>
  Claim C2. When every stage of a detection succeeds and the first result carries the
  list \<open>bs\<close> of boxes, the handler returns normally and shows exactly one result message:
  the information ``No visible damage detected.'' when \<open>bs\<close> has length zero, and otherwise
  the success message ``Detected \<open>n\<close> issue(s)!'' with \<open>n\<close> the length of \<open>bs\<close> in decimal
  (read digit by digit, the text of \<open>n\<close> gives the length back).
\<close>

theorem detection_count_message:
  assumes "exists w (MODEL_PATH env)"
    and "YOLO env (MODEL_PATH env) = Inr m"
    and "predict m (input_path unique) = Inr (r # rest)"
    and "plot r = Inr a"
    and "fromarray_error env (reverse_last_axis a) = None"
    and "save_error env (Image (reverse_last_axis a)) (result_path unique) = None"
    and "open_error w (result_path unique) = None"
    and "st_image_error env (result_path unique) = None"
    and "boxes r = Some bs"
  shows "fst (analyze env unique w) = Inr () \<and>
         filter is_result_message (events (analyze env unique) w) =
           [if length bs = 0 then St_info ''No visible damage detected.''
            else St_success (''Detected '' @ str_nat (length bs) @ '' issue(s)!'')] \<and>
         foldl (\<lambda>a c. 10 * a + (of_char c - 48)) 0 (str_nat (length bs)) = length bs"
proof -
  note s = try_block_success [OF assms(2-9)]
  from analyze_success [OF assms(1) s] have 1: "fst (analyze env unique w) = Inr ()" by simp
  have "events (analyze env unique) w = events (try_block env unique) w"
    using assms(1) s by (rule analyze_events_success)
  also have "\<dots> = [Call_YOLO (MODEL_PATH env), Call_predict (input_path unique), Call_plot,
                 Call_fromarray, Call_save (result_path unique),
                 Write (result_path unique)
                   (Encoded (save_format (result_path unique)) (Image (reverse_last_axis a))),
                 St_subheader ''2. Detection Results'',
                 St_image (result_path unique) ''Detected Damages'',
                 if bs = [] then St_info ''No visible damage detected.''
                 else St_success (''Detected '' @ str_nat (length bs) @ '' issue(s)!'')]"
    by (simp add: events_def s)
  finally have "filter is_result_message (events (analyze env unique) w) =
           [if length bs = 0 then St_info ''No visible damage detected.''
            else St_success (''Detected '' @ str_nat (length bs) @ '' issue(s)!'')]"
    by (simp add: is_result_message_def)
  with 1 str_nat_decimal [of "length bs"] show ?thesis by blast
qed

lemma clean_stages:
  "exists sample_world (MODEL_PATH clean_env)"
  "YOLO clean_env (MODEL_PATH clean_env) = Inr (Model (\<lambda>q. Inr [clean_result]))"
  "predict (Model (\<lambda>q. Inr [clean_result])) (input_path ''u.png'') = Inr (clean_result # [])"
  "plot clean_result = Inr [[[9, 8, 7]]]"
  "fromarray_error clean_env (reverse_last_axis [[[9, 8, 7]]]) = None"
  "save_error clean_env (Image (reverse_last_axis [[[9, 8, 7]]])) (result_path ''u.png'') = None"
  "open_error sample_world (result_path ''u.png'') = None"
  "st_image_error clean_env (result_path ''u.png'') = None"
  "boxes clean_result = Some []"
proof -
  show "exists sample_world (MODEL_PATH clean_env)"
    by (simp add: sample_paths exists_def sample_world_def)
  show "open_error sample_world (result_path ''u.png'') = None"
    by (simp add: sample_paths sample_open)
qed (simp_all add: clean_env_def sample_env_def clean_result_def)

theorem detection_count_message_witness:
  "exists sample_world (MODEL_PATH sample_env) \<and>
   YOLO sample_env (MODEL_PATH sample_env) = Inr (Model (\<lambda>q. Inr [sample_result, clean_result])) \<and>
   predict (Model (\<lambda>q. Inr [sample_result, clean_result])) (input_path ''u.png'') =
     Inr (sample_result # [clean_result]) \<and>
   plot sample_result = Inr [[[1, 2, 3], [4, 5, 6]]] \<and>
   fromarray_error sample_env (reverse_last_axis [[[1, 2, 3], [4, 5, 6]]]) = None \<and>
   save_error sample_env (Image (reverse_last_axis [[[1, 2, 3], [4, 5, 6]]])) (result_path ''u.png'') = None \<and>
   open_error sample_world (result_path ''u.png'') = None \<and>
   st_image_error sample_env (result_path ''u.png'') = None \<and>
   boxes sample_result = Some [Box 0, Box 2] \<and>
   fst (analyze sample_env ''u.png'' sample_world) = Inr () \<and>
   filter is_result_message (events (analyze sample_env ''u.png'') sample_world) =
     [St_success ''Detected 2 issue(s)!''] \<and>
   boxes clean_result = Some [] \<and>
   filter is_result_message (events (analyze clean_env ''u.png'') sample_world) =
     [St_info ''No visible damage detected.'']"
proof -
  from detection_count_message [OF sample_stages]
  have 1: "fst (analyze sample_env ''u.png'' sample_world) = Inr () \<and>
   filter is_result_message (events (analyze sample_env ''u.png'') sample_world) =
     [St_success ''Detected 2 issue(s)!'']"
    by (simp add: str_nat.simps)
  from detection_count_message [OF clean_stages]
  have 2: "filter is_result_message (events (analyze clean_env ''u.png'') sample_world) =
     [St_info ''No visible damage detected.'']"
    by simp
  from 1 2 sample_stages clean_stages(9) show ?thesis by blast
qed

text \<open>
  Claim C5. When the model loads, the prediction returns a first result, its plot returns
  the array \<open>a\<close> and neither building nor saving the picture raises, then, whatever happens
  to the display afterwards, the file at \<^verbatim>\<open>results/result_\<close> followed by the unique name of
  the upload is the encoding of the annotated picture (the plot of the first result with
  the channels of every pixel reversed), and the run wrote to that path exactly once.
\<close>

theorem result_saved_under_prefixed_name:
  assumes "exists w (MODEL_PATH env)"
    and "YOLO env (MODEL_PATH env) = Inr m"
    and "predict m (input_path unique) = Inr (r # rest)"
    and "plot r = Inr a"
    and "fromarray_error env (reverse_last_axis a) = None"
    and "save_error env (Image (reverse_last_axis a)) (result_path unique) = None"
    and "open_error w (result_path unique) = None"
  shows "result_path unique = RESULT_FOLDER @ ''/'' @ ''result_'' @ unique \<and>
         fs (snd (analyze env unique w)) (RESULT_FOLDER @ ''/'' @ ''result_'' @ unique) =
           Some (File (Encoded (save_format (result_path unique)) (Image (map (map rev) a)))) \<and>
         filter (is_write_to (result_path unique)) (events (analyze env unique) w) =
           [Write (result_path unique)
              (Encoded (save_format (result_path unique)) (Image (map (map rev) a)))]"
proof -
  have 1: "result_path unique = RESULT_FOLDER @ ''/'' @ ''result_'' @ unique"
    by (simp add: result_path_eq RESULT_FOLDER_def)
  note s = try_block_saved [OF assms(2-7)]
  from s assms(1) have 2: "fs (snd (analyze env unique w)) (result_path unique) =
      Some (File (Encoded (save_format (result_path unique)) (Image (map (map rev) a))))"
    by (simp add: analyze_fs)
  from s assms(1) have 3: "filter (is_write_to (result_path unique)) (events (analyze env unique) w) =
           [Write (result_path unique)
              (Encoded (save_format (result_path unique)) (Image (map (map rev) a)))]"
    by (simp add: analyze_writes)
  from 1 2 3 show ?thesis by (simp only: simp_thms)
qed

theorem result_saved_under_prefixed_name_witness:
  "exists sample_world (MODEL_PATH sample_env) \<and>
   YOLO sample_env (MODEL_PATH sample_env) = Inr (Model (\<lambda>q. Inr [sample_result, clean_result])) \<and>
   predict (Model (\<lambda>q. Inr [sample_result, clean_result])) (input_path ''u.png'') =
     Inr (sample_result # [clean_result]) \<and>
   plot sample_result = Inr [[[1, 2, 3], [4, 5, 6]]] \<and>
   fromarray_error sample_env (reverse_last_axis [[[1, 2, 3], [4, 5, 6]]]) = None \<and>
   save_error sample_env (Image (reverse_last_axis [[[1, 2, 3], [4, 5, 6]]])) (result_path ''u.png'') = None \<and>
   open_error sample_world (result_path ''u.png'') = None \<and>
   result_path ''u.png'' = ''results/result_u.png'' \<and>
   fs (snd (analyze sample_env ''u.png'' sample_world)) ''results/result_u.png'' =
     Some (File (Encoded ''.png'' (Image [[[3, 2, 1], [6, 5, 4]]]))) \<and>
   filter (is_write_to ''results/result_u.png'') (events (analyze sample_env ''u.png'') sample_world) =
     [Write ''results/result_u.png'' (Encoded ''.png'' (Image [[[3, 2, 1], [6, 5, 4]]]))]"
proof -
  note t = result_saved_under_prefixed_name [OF sample_stages(1-7)]
  from t [THEN conjunct2, THEN conjunct1]
  have 1: "fs (snd (analyze sample_env ''u.png'' sample_world)) ''results/result_u.png'' =
     Some (File (Encoded ''.png'' (Image [[[3, 2, 1], [6, 5, 4]]])))"
    by (simp add: RESULT_FOLDER_def sample_paths sample_formats)
  from t [THEN conjunct2, THEN conjunct2]
  have 2: "filter (is_write_to ''results/result_u.png'')
      (events (analyze sample_env ''u.png'') sample_world) =
     [Write ''results/result_u.png'' (Encoded ''.png'' (Image [[[3, 2, 1], [6, 5, 4]]]))]"
    by (simp add: sample_paths sample_formats)
  from 1 2 sample_stages(1-7) sample_paths(5) show ?thesis by (simp only: simp_thms)
qed

text \<open>
  Claim C8, as the code has it. Under the same conditions the picture handed to
  \<^verbatim>\<open>Image.save\<close> has the shape of the plot \<open>a\<close> and, at every pixel, the channels of \<open>a\<close> in
  reverse order: a pixel \<open>[b, g, r]\<close> of the plot becomes \<open>[r, g, b]\<close>. The file is its
  encoding in the format of the extension of the result name, which is that of the
  upload, in lower case. Read back, a \<^verbatim>\<open>.png\<close> file gives exactly that picture; any other
  format gives what its codec makes of it.
\<close>

theorem saved_image_is_channel_reversed:
  assumes "exists w (MODEL_PATH env)"
    and "YOLO env (MODEL_PATH env) = Inr m"
    and "predict m (input_path unique) = Inr (r # rest)"
    and "plot r = Inr a"
    and "fromarray_error env (reverse_last_axis a) = None"
    and "save_error env (Image (reverse_last_axis a)) (result_path unique) = None"
    and "open_error w (result_path unique) = None"
  shows "\<exists>ext img.
           fs (snd (analyze env unique w)) (result_path unique) = Some (File (Encoded ext img)) \<and>
           ext = lower (snd (splitext (result_path unique))) \<and>
           length (pixels img) = length a \<and>
           (\<forall>y < length a. length (pixels img ! y) = length (a ! y) \<and>
              (\<forall>x < length (a ! y). pixels img ! y ! x = rev (a ! y ! x) \<and>
                 (\<forall>b g r'. a ! y ! x = [b, g, r'] \<longrightarrow> pixels img ! y ! x = [r', g, b]))) \<and>
           (ext = ''.png'' \<longrightarrow> stored_picture env (Encoded ext img) = Some img) \<and>
           (ext \<noteq> ''.png'' \<longrightarrow> stored_picture env (Encoded ext img) = Some (codec env ext img))"
proof -
  let ?img = "Image (map (map rev) a)"
  let ?ext = "save_format (result_path unique)"
  from try_block_saved [OF assms(2-7)] assms(1)
  have "fs (snd (analyze env unique w)) (result_path unique) = Some (File (Encoded ?ext ?img))"
    by (simp add: analyze_fs)
  moreover have "?ext = lower (snd (splitext (result_path unique)))"
    by (simp add: save_format_def)
  moreover have "length (pixels ?img) = length a" by simp
  moreover have "\<forall>y < length a. length (pixels ?img ! y) = length (a ! y) \<and>
              (\<forall>x < length (a ! y). pixels ?img ! y ! x = rev (a ! y ! x) \<and>
                 (\<forall>b g r'. a ! y ! x = [b, g, r'] \<longrightarrow> pixels ?img ! y ! x = [r', g, b]))"
    by simp
  moreover have "?ext = ''.png'' \<longrightarrow> stored_picture env (Encoded ?ext ?img) = Some ?img"
    and "?ext \<noteq> ''.png'' \<longrightarrow> stored_picture env (Encoded ?ext ?img) = Some (codec env ?ext ?img)"
    by (simp_all add: stored_picture_def)
  ultimately show ?thesis by blast
qed

theorem saved_image_is_channel_reversed_witness:
  "exists sample_world (MODEL_PATH sample_env) \<and>
   YOLO sample_env (MODEL_PATH sample_env) = Inr (Model (\<lambda>q. Inr [sample_result, clean_result])) \<and>
   predict (Model (\<lambda>q. Inr [sample_result, clean_result])) (input_path ''u.png'') =
     Inr (sample_result # [clean_result]) \<and>
   plot sample_result = Inr [[[1, 2, 3], [4, 5, 6]]] \<and>
   fromarray_error sample_env (reverse_last_axis [[[1, 2, 3], [4, 5, 6]]]) = None \<and>
   save_error sample_env (Image (reverse_last_axis [[[1, 2, 3], [4, 5, 6]]])) (result_path ''u.png'') = None \<and>
   open_error sample_world (result_path ''u.png'') = None \<and>
   (\<exists>img. fs (snd (analyze sample_env ''u.png'' sample_world)) ''results/result_u.png'' =
       Some (File (Encoded ''.png'' img)) \<and>
     pixels img ! 0 ! 0 = [3, 2, 1] \<and> pixels img ! 0 ! 1 = [6, 5, 4] \<and>
     stored_picture sample_env (Encoded ''.png'' img) = Some img)"
proof -
  from saved_image_is_channel_reversed [OF sample_stages(1-7)]
  obtain ext img where
    i: "fs (snd (analyze sample_env ''u.png'' sample_world)) (result_path ''u.png'') =
      Some (File (Encoded ext img))"
    and e: "ext = lower (snd (splitext (result_path ''u.png'')))"
    and p: "\<forall>y < length [[[1, 2, 3], [4, 5, 6 :: byte]]].
      length (pixels img ! y) = length ([[[1, 2, 3], [4, 5, 6 :: byte]]] ! y) \<and>
      (\<forall>x < length ([[[1, 2, 3], [4, 5, 6 :: byte]]] ! y).
         pixels img ! y ! x = rev ([[[1, 2, 3], [4, 5, 6 :: byte]]] ! y ! x) \<and>
         (\<forall>b g r'. [[[1, 2, 3], [4, 5, 6 :: byte]]] ! y ! x = [b, g, r'] \<longrightarrow>
            pixels img ! y ! x = [r', g, b]))"
    and s: "ext = ''.png'' \<longrightarrow> stored_picture sample_env (Encoded ext img) = Some img"
    by blast
  from e have ext: "ext = ''.png''"
    using sample_formats(1) by (simp add: save_format_def sample_paths)
  from p have "pixels img ! 0 ! 0 = [3, 2, 1] \<and> pixels img ! 0 ! 1 = [6, 5, 4]" by simp
  with i s ext sample_stages(1-7) show ?thesis by (simp add: sample_paths)
qed

text \<open>
  The unrestricted statement, that every stored triple is the reversal of the plotted one,
  fails for an upload named \<^verbatim>\<open>.jpg\<close>: the result is a JPEG file, and with a codec that
  turns the pixel \<open>[3, 2, 1]\<close> into \<open>[4, 3, 1]\<close> the stored triple is not the reversal of
  the plotted \<open>[1, 2, 3]\<close>.
\<close>

theorem jpeg_result_differs:
  "plot sample_result = Inr [[[1, 2, 3], [4, 5, 6]]] \<and>
   fs (snd (analyze sample_env ''u.jpg'' sample_world)) ''results/result_u.jpg'' =
     Some (File (Encoded ''.jpg'' (Image [[[3, 2, 1], [6, 5, 4]]]))) \<and>
   stored_picture sample_env (Encoded ''.jpg'' (Image [[[3, 2, 1], [6, 5, 4]]])) =
     Some (Image [[[4, 3, 1], [5, 4, 2]]]) \<and>
   pixels (Image [[[4, 3, 1], [5, 4, 2]]]) ! 0 ! 0 \<noteq> rev ([[[1, 2, 3], [4, 5, 6 :: byte]]] ! 0 ! 0)"
proof -
  from try_block_saved [OF jpg_stages(2-7)] jpg_stages(1)
  have "fs (snd (analyze sample_env ''u.jpg'' sample_world)) (result_path ''u.jpg'') =
      Some (File (Encoded (save_format (result_path ''u.jpg''))
        (Image (map (map rev) [[[1, 2, 3], [4, 5, 6]]]))))"
    by (simp add: analyze_fs)
  then have 1: "fs (snd (analyze sample_env ''u.jpg'' sample_world)) ''results/result_u.jpg'' =
     Some (File (Encoded ''.jpg'' (Image [[[3, 2, 1], [6, 5, 4]]])))"
    by (simp add: sample_paths sample_formats)
  have 2: "stored_picture sample_env (Encoded ''.jpg'' (Image [[[3, 2, 1], [6, 5, 4]]])) =
     Some (Image [[[4, 3, 1], [5, 4, 2]]])"
    by (simp add: stored_picture_def sample_env_def)
  have 3: "pixels (Image [[[4, 3, 1], [5, 4, 2]]]) ! 0 ! 0 \<noteq>
      rev ([[[1, 2, 3], [4, 5, 6 :: byte]]] ! 0 ! 0)"
    by simp
  from jpg_stages(4) 1 2 3 show ?thesis by (simp only: simp_thms)
qed

subsection \<open>Results after the first\<close>

lemma save_result_first: "save_result env unique (take (Suc 0) rs) = save_result env unique rs"
  by (cases rs) (simp_all add: save_result_def getitem0_def)

lemma show_result_first: "show_result env unique (take (Suc 0) rs) = show_result env unique rs"
  by (cases rs) (simp_all add: show_result_def getitem0_def)

lemma first_result_only_fields [simp]:
  "app_dir (first_result_only env) = app_dir env"
  "fromarray_error (first_result_only env) = fromarray_error env"
  "save_error (first_result_only env) = save_error env"
  "st_image_error (first_result_only env) = st_image_error env"
  "MODEL_PATH (first_result_only env) = MODEL_PATH env"
  by (simp_all add: first_result_only_def MODEL_PATH_def)

lemma save_result_env:
  "save_result (first_result_only env) unique rs = save_result env unique rs"
  by (simp add: save_result_def fromarray_def save_def)

lemma show_result_env:
  "show_result (first_result_only env) unique rs = show_result env unique rs"
  by (simp add: show_result_def st_image_def)

lemma run_prediction_first:
  "run_prediction (first_result_only env) unique w =
     (case run_prediction env unique w of
        (Inl e, w') \<Rightarrow> (Inl e, w')
      | (Inr rs, w') \<Rightarrow> (Inr (take 1 rs), w'))"
  by (simp add: run_prediction_def call_YOLO_def call_predict_def lift_def io_bind_def emit_def
      raise_def io_return_def first_result_only_def MODEL_PATH_def split: sum.split)

lemma try_block_first: "try_block (first_result_only env) unique w = try_block env unique w"
proof -
  have "try_block (first_result_only env) unique w =
      (case run_prediction env unique w of
        (Inl e, w') \<Rightarrow> (Inl e, w')
      | (Inr rs, w') \<Rightarrow>
          io_bind (save_result env unique (take 1 rs)) (\<lambda>_. show_result env unique (take 1 rs)) w')"
    by (simp add: try_block_def io_bind_def [of "run_prediction (first_result_only env) unique"]
        run_prediction_first save_result_env show_result_env split: prod.split sum.split)
  also have "\<dots> = try_block env unique w"
    by (simp add: try_block_def io_bind_def [of "run_prediction env unique"]
        save_result_first show_result_first split: prod.split sum.split)
  finally show ?thesis .
qed

lemma script_first: "script (first_result_only env) i w = script env i w"
proof -
  have a: "analyze (first_result_only env) unique = analyze env unique" for unique
    by (rule ext) (simp add: analyze_def try_block_first model_not_found_def)
  have "upload_handler (first_result_only env) i = upload_handler env i"
    by (simp add: upload_handler_def a st_image_def Let_def split: option.split)
  then show ?thesis by (simp add: script_def)
qed

text \<open>
  Claim C9. Two library behaviours that differ only in what follows the first element of
  the predicted results give the same run: the same files, the same trace (so the same
  saved picture and the same messages) and the same outcome.
\<close>

theorem only_first_result_used:
  "first_result_only env1 = first_result_only env2 \<Longrightarrow> script env1 i w = script env2 i w"
  using script_first [of env1 i w] script_first [of env2 i w] by simp

theorem only_first_result_used_witness:
  "first_result_only sample_env = first_result_only single_env \<and>
   script sample_env sample_upload sample_world = script single_env sample_upload sample_world"
proof -
  have h: "first_result_only sample_env = first_result_only single_env"
    by (simp add: first_result_only_def sample_env_def single_env_def)
  from only_first_result_used [OF h] h show ?thesis by simp
qed

subsection \<open>One run of the script\<close>


lemma upload_handler_frame:
  "p \<notin> set (written_paths i) \<Longrightarrow> fs (snd (upload_handler env i w)) p = fs w p"
  by (simp add: upload_handler_def written_paths_def Let_def io_bind_def write_file_def store_def
      raise_def st_image_def emit_def io_return_def analyze_frame
      split: option.split prod.split sum.split)





lemma script_snd:
  "snd (script env i w) =
     (case startup w of
        (Inl e, w1) \<Rightarrow> w1
      | (Inr u, w1) \<Rightarrow> snd (upload_handler env i w1))"
  by (simp add: script_def io_bind_def split: prod.split sum.split)






lemma written_paths_not_folder:
  assumes "is_uuid4_str (uuid4 i)" and "p \<in> set (written_paths i)"
  shows "p \<noteq> UPLOAD_FOLDER \<and> p \<noteq> RESULT_FOLDER"
  using assms
  by (auto simp add: written_paths_def input_path_eq result_path_eq UPLOAD_FOLDER_def
      RESULT_FOLDER_def split: option.splits)


lemma script_upload:
  assumes up: "uploaded_file i = Some f" and wf: "is_uuid4_str (uuid4 i)"
    and d1: "fs w UPLOAD_FOLDER = None \<or> fs w UPLOAD_FOLDER = Some Dir"
    and d2: "fs w RESULT_FOLDER = None \<or> fs w RESULT_FOLDER = Some Dir"
    and fr: "fs w (input_path (unique_filename (uuid4 i) (name f))) \<noteq> Some Dir"
  shows "fs (snd (script env i w)) (input_path (unique_filename (uuid4 i) (name f))) =
           Some (File (Raw (getbuffer f))) \<and>
         filter (is_write_to (input_path (unique_filename (uuid4 i) (name f))))
           (events (script env i) w) =
           [Write (input_path (unique_filename (uuid4 i) (name f))) (Raw (getbuffer f))]"
proof -
  define u where "u = unique_filename (uuid4 i) (name f)"
  define ip where "ip = input_path u"
  define d where "d = getbuffer f"
  have ip_eq: "ip = ''uploads/'' @ u"
    unfolding ip_def u_def using wf by (rule input_path_eq)
  have no_slash: "CHR ''/'' \<notin> set u"
    unfolding u_def using wf by (rule unique_filename_no_slash)
  have dir: "dirname ip = ''uploads''"
    unfolding ip_eq using no_slash by (rule dirname_uploads)
  have ne: "ip \<noteq> UPLOAD_FOLDER" "ip \<noteq> RESULT_FOLDER"
    by (simp_all add: ip_eq UPLOAD_FOLDER_def RESULT_FOLDER_def)
  have ne_rp: "ip \<noteq> result_path u"
    unfolding ip_def u_def using wf by (rule input_ne_result)
  from startup_result [OF d1 d2] obtain w1 where
    s: "startup w = (Inr (), w1)"
    and fs1: "fs w1 = (fs w)(UPLOAD_FOLDER \<mapsto> Dir, RESULT_FOLDER \<mapsto> Dir)"
    and tr1: "trace w1 = trace w @ [Mkdir p. p \<leftarrow> [UPLOAD_FOLDER, RESULT_FOLDER], fs w p = None]"
    by blast
  define mk where "mk = [Mkdir p. p \<leftarrow> [UPLOAD_FOLDER, RESULT_FOLDER], fs w p = None]"
  have mk: "filter (is_write_to ip) mk = []"
    by (simp add: mk_def is_write_to_def)
  from tr1 have tr1': "trace w1 = trace w @ mk" by (simp add: mk_def)
  from fr ne have "fs w1 ip \<noteq> Some Dir" by (simp add: fs1 ip_def u_def)
  moreover have "fs w1 ''uploads'' = Some Dir" by (simp add: fs1 UPLOAD_FOLDER_def RESULT_FOLDER_def)
  ultimately have op: "open_error w1 ip = None" by (simp add: open_error_def dir)
  define w2 where "w2 = w1\<lparr>fs := (fs w1)(ip \<mapsto> File (Raw d)), trace := trace w1 @ [Write ip (Raw d)]\<rparr>"
  from op have wr: "write_file ip d w1 = (Inr (), w2)"
    by (simp add: write_file_def store_def w2_def)
  have fs2: "fs w2 ip = Some (File (Raw d))" by (simp add: w2_def)
  have tr2: "trace w2 = trace w @ (mk @ [Write ip (Raw d)])" by (simp add: w2_def tr1')
  define w3 where "w3 = w2\<lparr>trace := trace w2 @ [St_image ip ''Original Image'']\<rparr>"
  have fs3: "fs w3 ip = Some (File (Raw d))" by (simp add: w3_def fs2)
  have tr3: "trace w3 = trace w @ (mk @ [Write ip (Raw d), St_image ip ''Original Image''])"
    by (simp add: w3_def tr2)
  have sc: "script env i w =
      (case st_image_error env ip of
         Some e \<Rightarrow> (Inl e, w2)
       | None \<Rightarrow> if button i then analyze env u w3 else (Inr (), w3))"
    using s wr up
    by (simp add: script_def upload_handler_def io_bind_def Let_def u_def [symmetric]
        ip_def [symmetric] d_def [symmetric] st_image_def raise_def emit_def io_return_def w3_def
        split: option.split)
  have "fs (snd (script env i w)) ip = Some (File (Raw d)) \<and>
        filter (is_write_to ip) (events (script env i) w) = [Write ip (Raw d)]"
  proof (cases "st_image_error env ip")
    case (Some e)
    with sc have "snd (script env i w) = w2" by simp
    then show ?thesis
      by (simp add: fs2 events_def tr2 mk) (simp add: is_write_to_def)
  next
    case None
    show ?thesis
    proof (cases "button i")
      case False
      with sc None have "snd (script env i w) = w3" by simp
      then show ?thesis
        by (simp add: fs3 events_def tr3 mk) (simp add: is_write_to_def)
    next
      case True
      with sc None have a: "snd (script env i w) = snd (analyze env u w3)" by simp
      have "fs (snd (analyze env u w3)) ip = fs w3 ip"
        using ne_rp by (rule analyze_frame)
      with a fs3 have 1: "fs (snd (script env i w)) ip = Some (File (Raw d))" by simp
      have "trace (snd (script env i w)) =
          trace w @ (mk @ [Write ip (Raw d), St_image ip ''Original Image''] @ events (analyze env u) w3)"
        by (simp add: a analyze_trace tr3)
      then have "events (script env i) w =
          mk @ [Write ip (Raw d), St_image ip ''Original Image''] @ events (analyze env u) w3"
        by (rule events_append)
      then have "filter (is_write_to ip) (events (script env i) w) = [Write ip (Raw d)]"
        by (simp add: mk analyze_writes_other [OF ne_rp]) (simp add: is_write_to_def)
      with 1 show ?thesis ..
    qed
  qed
  then show ?thesis by (simp add: ip_def u_def d_def)
qed

lemma script_folders:
  assumes "is_uuid4_str (uuid4 i)"
    and "fs w UPLOAD_FOLDER = None \<or> fs w UPLOAD_FOLDER = Some Dir"
    and "fs w RESULT_FOLDER = None \<or> fs w RESULT_FOLDER = Some Dir"
  shows "fs (snd (script env i w)) UPLOAD_FOLDER = Some Dir \<and>
         fs (snd (script env i w)) RESULT_FOLDER = Some Dir"
proof -
  from startup_result [OF assms(2,3)] obtain w1 where
    s: "startup w = (Inr (), w1)"
    and fs1: "fs w1 = (fs w)(UPLOAD_FOLDER \<mapsto> Dir, RESULT_FOLDER \<mapsto> Dir)"
    by blast
  from assms(1) have "UPLOAD_FOLDER \<notin> set (written_paths i)" "RESULT_FOLDER \<notin> set (written_paths i)"
    using written_paths_not_folder by blast+
  then have "fs (snd (upload_handler env i w1)) UPLOAD_FOLDER = fs w1 UPLOAD_FOLDER"
    "fs (snd (upload_handler env i w1)) RESULT_FOLDER = fs w1 RESULT_FOLDER"
    by (simp_all add: upload_handler_frame)
  with s fs1 show ?thesis
    by (simp add: script_snd UPLOAD_FOLDER_def RESULT_FOLDER_def)
qed

lemma sample_uuids: "is_uuid4_str sample_uuid" "is_uuid4_str other_uuid" "sample_uuid \<noteq> other_uuid"
  by (simp_all add: is_uuid4_str_def uuid_char_def sample_uuid_def other_uuid_def)

lemma sample_names:
  "unique_filename sample_uuid ''car.JPG'' = sample_uuid @ ''.JPG''"
  "unique_filename other_uuid ''van.png'' = other_uuid @ ''.png''"
  using splitext_ext [of "''JPG''" "''car''"] splitext_ext [of "''png''" "''van''"]
  by (simp_all add: unique_filename_def file_ext_def)

lemma sample_input_paths:
  "input_path (unique_filename sample_uuid ''car.JPG'') = ''uploads/'' @ sample_uuid @ ''.JPG''"
  "input_path (unique_filename other_uuid ''van.png'') = ''uploads/'' @ other_uuid @ ''.png''"
  using input_path_eq [OF sample_uuids(1), of "''car.JPG''"]
    input_path_eq [OF sample_uuids(2), of "''van.png''"]
  by (simp_all add: sample_names)

text \<open>
  Claim C4, as the code has it. In a run with an uploaded file, a well-formed identifier from
  the UUID generator, folders that startup can create or finds in place, and no directory
  in the way at the input path: the stored name is the identifier followed by the
  extension of the original name; the input path is that name directly inside
  \<^verbatim>\<open>uploads/\<close>; at the end of the run the file at that path holds exactly the uploaded
  bytes, and the run wrote to it exactly once. The script does not look whether the name
  is free: two generated names are the same exactly when the two identifiers are the same
  and the two extensions are, so the names are as unique as the identifiers that the
  generator returns.
\<close>

theorem upload_saved_under_unique_name:
  assumes "uploaded_file i = Some f" and "is_uuid4_str (uuid4 i)"
    and "fs w UPLOAD_FOLDER = None \<or> fs w UPLOAD_FOLDER = Some Dir"
    and "fs w RESULT_FOLDER = None \<or> fs w RESULT_FOLDER = Some Dir"
    and "fs w (input_path (unique_filename (uuid4 i) (name f))) \<noteq> Some Dir"
  shows "unique_filename (uuid4 i) (name f) = uuid4 i @ file_ext (name f) \<and>
         input_path (unique_filename (uuid4 i) (name f)) =
           ''uploads/'' @ unique_filename (uuid4 i) (name f) \<and>
         CHR ''/'' \<notin> set (unique_filename (uuid4 i) (name f)) \<and>
         fs (snd (script env i w)) (input_path (unique_filename (uuid4 i) (name f))) =
           Some (File (Raw (getbuffer f))) \<and>
         filter (is_write_to (input_path (unique_filename (uuid4 i) (name f))))
           (events (script env i) w) =
           [Write (input_path (unique_filename (uuid4 i) (name f))) (Raw (getbuffer f))] \<and>
         (\<forall>u' n'. is_uuid4_str u' \<longrightarrow>
            (unique_filename u' n' = unique_filename (uuid4 i) (name f) \<longleftrightarrow>
             u' = uuid4 i \<and> file_ext n' = file_ext (name f)))"
proof -
  have "unique_filename u' n' = unique_filename (uuid4 i) (name f) \<longleftrightarrow>
      u' = uuid4 i \<and> file_ext n' = file_ext (name f)" if "is_uuid4_str u'" for u' n'
  proof -
    from that assms(2) have "length u' = length (uuid4 i)" by (simp add: is_uuid4_str_length)
    then show ?thesis by (simp add: unique_filename_def)
  qed
  then have "\<forall>u' n'. is_uuid4_str u' \<longrightarrow>
            (unique_filename u' n' = unique_filename (uuid4 i) (name f) \<longleftrightarrow>
             u' = uuid4 i \<and> file_ext n' = file_ext (name f))"
    by blast
  with script_upload [OF assms, of env] input_path_eq [OF assms(2)]
    unique_filename_no_slash [OF assms(2)]
  show ?thesis by (simp add: unique_filename_def)
qed

theorem upload_saved_under_unique_name_witness:
  "uploaded_file sample_upload = Some \<lparr>name = ''car.JPG'', getbuffer = [7, 8]\<rparr> \<and>
   is_uuid4_str (uuid4 sample_upload) \<and>
   (fs empty_world UPLOAD_FOLDER = None \<or> fs empty_world UPLOAD_FOLDER = Some Dir) \<and>
   (fs empty_world RESULT_FOLDER = None \<or> fs empty_world RESULT_FOLDER = Some Dir) \<and>
   fs empty_world (input_path (unique_filename (uuid4 sample_upload) ''car.JPG'')) \<noteq> Some Dir \<and>
   unique_filename sample_uuid ''car.JPG'' = sample_uuid @ ''.JPG'' \<and>
   fs (snd (script sample_env sample_upload empty_world)) (''uploads/'' @ sample_uuid @ ''.JPG'') =
     Some (File (Raw [7, 8])) \<and>
   filter (is_write_to (''uploads/'' @ sample_uuid @ ''.JPG''))
     (events (script sample_env sample_upload) empty_world) =
     [Write (''uploads/'' @ sample_uuid @ ''.JPG'') (Raw [7, 8])] \<and>
   is_uuid4_str other_uuid \<and> other_uuid \<noteq> uuid4 sample_upload \<and>
   unique_filename other_uuid ''car.JPG'' \<noteq> unique_filename sample_uuid ''car.JPG''"
proof -
  have h1: "uploaded_file sample_upload = Some \<lparr>name = ''car.JPG'', getbuffer = [7, 8]\<rparr>"
    and u: "uuid4 sample_upload = sample_uuid"
    by (simp_all add: sample_upload_def)
  have h2: "is_uuid4_str (uuid4 sample_upload)" by (simp add: u sample_uuids)
  have h3: "fs empty_world UPLOAD_FOLDER = None \<or> fs empty_world UPLOAD_FOLDER = Some Dir"
    and h4: "fs empty_world RESULT_FOLDER = None \<or> fs empty_world RESULT_FOLDER = Some Dir"
    and h5: "fs empty_world (input_path (unique_filename (uuid4 sample_upload)
               (name \<lparr>name = ''car.JPG'', getbuffer = [7, 8]\<rparr>))) \<noteq> Some Dir"
    by (simp_all add: empty_world_def)
  note t = upload_saved_under_unique_name [OF h1 h2 h3 h4 h5, of sample_env]
  note t4 = t [THEN conjunct2, THEN conjunct2, THEN conjunct2, THEN conjunct1]
  note t5 = t [THEN conjunct2, THEN conjunct2, THEN conjunct2, THEN conjunct2, THEN conjunct1]
  note t6 = t [THEN conjunct2, THEN conjunct2, THEN conjunct2, THEN conjunct2, THEN conjunct2]
  from t4 have c1: "fs (snd (script sample_env sample_upload empty_world))
        (''uploads/'' @ sample_uuid @ ''.JPG'') = Some (File (Raw [7, 8]))"
    by (simp add: u sample_input_paths)
  from t5 have c2: "filter (is_write_to (''uploads/'' @ sample_uuid @ ''.JPG''))
     (events (script sample_env sample_upload) empty_world) =
     [Write (''uploads/'' @ sample_uuid @ ''.JPG'') (Raw [7, 8])]"
    by (simp add: u sample_input_paths)
  from t6 [rule_format, of other_uuid "''car.JPG''"] sample_uuids
  have c3: "unique_filename other_uuid ''car.JPG'' \<noteq> unique_filename sample_uuid ''car.JPG''"
    by (simp add: u)
  from h1 h2 h3 h4 h5 c1 c2 c3 sample_uuids sample_names(1) show ?thesis
    by (simp add: u)
qed

lemma two_uploads:
  "uploaded_file first_of_two = Some \<lparr>name = ''a.png'', getbuffer = [1]\<rparr>"
  "uploaded_file second_of_two = Some \<lparr>name = ''b.png'', getbuffer = [2]\<rparr>"
  "uuid4 first_of_two = sample_uuid"
  "uuid4 second_of_two = sample_uuid"
  by (simp_all add: first_of_two_def second_of_two_def)

lemma two_names:
  "unique_filename sample_uuid ''a.png'' = sample_uuid @ ''.png''"
  "unique_filename sample_uuid ''b.png'' = sample_uuid @ ''.png''"
  using splitext_ext [of "''png''" "''a''"] splitext_ext [of "''png''" "''b''"]
  by (simp_all add: unique_filename_def file_ext_def)

lemma two_paths:
  "input_path (unique_filename sample_uuid ''a.png'') = ''uploads/'' @ sample_uuid @ ''.png''"
  "input_path (unique_filename sample_uuid ''b.png'') = ''uploads/'' @ sample_uuid @ ''.png''"
  using input_path_eq [OF sample_uuids(1), of "''a.png''"]
    input_path_eq [OF sample_uuids(1), of "''b.png''"]
  by (simp_all add: two_names)

lemma two_runs:
  "fs (snd (script sample_env first_of_two sample_world)) (''uploads/'' @ sample_uuid @ ''.png'') =
     Some (File (Raw [1]))"
  "fs (snd (script sample_env second_of_two (snd (script sample_env first_of_two sample_world))))
     (''uploads/'' @ sample_uuid @ ''.png'') = Some (File (Raw [2]))"
  "filter (is_write_to (''uploads/'' @ sample_uuid @ ''.png''))
     (events (script sample_env second_of_two) (snd (script sample_env first_of_two sample_world))) =
     [Write (''uploads/'' @ sample_uuid @ ''.png'') (Raw [2])]"
proof -
  let ?w1 = "snd (script sample_env first_of_two sample_world)"
  let ?p = "''uploads/'' @ sample_uuid @ ''.png''"
  have d: "fs sample_world UPLOAD_FOLDER = None \<or> fs sample_world UPLOAD_FOLDER = Some Dir"
    "fs sample_world RESULT_FOLDER = None \<or> fs sample_world RESULT_FOLDER = Some Dir"
    by (simp_all add: sample_world_def UPLOAD_FOLDER_def RESULT_FOLDER_def)
  have wf1: "is_uuid4_str (uuid4 first_of_two)" and wf2: "is_uuid4_str (uuid4 second_of_two)"
    by (simp_all add: two_uploads sample_uuids)
  have fr: "fs sample_world (input_path (unique_filename (uuid4 first_of_two)
      (name \<lparr>name = ''a.png'', getbuffer = [1]\<rparr>))) \<noteq> Some Dir"
    by (simp add: two_uploads two_paths) (simp add: sample_world_def sample_uuid_def)
  from script_upload [OF two_uploads(1) wf1 d fr, of sample_env]
  show 1: "fs ?w1 ?p = Some (File (Raw [1]))"
    by (simp add: two_uploads two_paths)
  from script_folders [OF wf1 d, of sample_env]
  have d1: "fs ?w1 UPLOAD_FOLDER = None \<or> fs ?w1 UPLOAD_FOLDER = Some Dir"
    "fs ?w1 RESULT_FOLDER = None \<or> fs ?w1 RESULT_FOLDER = Some Dir"
    by simp_all
  from 1 have fr1: "fs ?w1 (input_path (unique_filename (uuid4 second_of_two)
      (name \<lparr>name = ''b.png'', getbuffer = [2]\<rparr>))) \<noteq> Some Dir"
    by (simp add: two_uploads two_paths)
  note s2 = script_upload [OF two_uploads(2) wf2 d1 fr1, of sample_env]
  from s2 show "fs (snd (script sample_env second_of_two ?w1)) ?p = Some (File (Raw [2]))"
    by (simp add: two_uploads two_paths)
  from s2 show "filter (is_write_to ?p) (events (script sample_env second_of_two) ?w1) =
     [Write ?p (Raw [2])]"
    by (simp add: two_uploads two_paths)
qed

text \<open>
  The unrestricted statement, that the generated name differs from that of every other
  upload, fails when the generator returns one identifier twice: the uploads \<^verbatim>\<open>a.png\<close> and
  \<^verbatim>\<open>b.png\<close> get the same name, and the second run writes its bytes to the path of the
  first.
\<close>

theorem repeated_draw_repeats_name:
  "uploaded_file first_of_two = Some \<lparr>name = ''a.png'', getbuffer = [1]\<rparr> \<and>
   uploaded_file second_of_two = Some \<lparr>name = ''b.png'', getbuffer = [2]\<rparr> \<and>
   is_uuid4_str (uuid4 first_of_two) \<and> is_uuid4_str (uuid4 second_of_two) \<and>
   unique_filename (uuid4 first_of_two) ''a.png'' = unique_filename (uuid4 second_of_two) ''b.png'' \<and>
   filter (is_write_to (input_path (unique_filename (uuid4 first_of_two) ''a.png'')))
     (events (script sample_env second_of_two) (snd (script sample_env first_of_two sample_world))) =
     [Write (input_path (unique_filename (uuid4 first_of_two) ''a.png'')) (Raw [2])]"
proof -
  have 1: "unique_filename (uuid4 first_of_two) ''a.png'' =
      unique_filename (uuid4 second_of_two) ''b.png''"
    by (simp add: two_uploads two_names)
  have 2: "filter (is_write_to (input_path (unique_filename (uuid4 first_of_two) ''a.png'')))
     (events (script sample_env second_of_two) (snd (script sample_env first_of_two sample_world))) =
     [Write (input_path (unique_filename (uuid4 first_of_two) ''a.png'')) (Raw [2])]"
    using two_runs(3) by (simp add: two_uploads two_paths)
  have 3: "is_uuid4_str (uuid4 first_of_two)" "is_uuid4_str (uuid4 second_of_two)"
    by (simp_all add: two_uploads sample_uuids)
  from two_uploads(1,2) 1 2 3 show ?thesis by (simp only: simp_thms)
qed

subsection \<open>Sessions\<close>













end
